theory Spec2Isabelle
  imports Main "HOL-Library.Word" "HOL-Library.Char_ord" "HOL-Library.List_Lexorder"
    "HOL-Library.Sublist" "HOL-Library.AList"
begin

unbundle bit_operations_syntax

section \<open>JavaScript values, JSON text and the rolling hash\<close>

text \<open>
  The TypeScript sources pass untyped values (\<^verbatim>\<open>any\<close>, \<^verbatim>\<open>Record<string, any>\<close>) through
  \<^verbatim>\<open>JSON.stringify\<close>. A value is modelled by \<open>jsval\<close>; an object is the list of its own
  properties in enumeration order (keys are meant to be distinct). Numbers are the
  integers, written digit by digit, which is the text JavaScript gives an integer of
  magnitude below \<open>2 ^ 53\<close>; larger numbers, fractions and the non-finite numbers are not
  covered. Strings are lists of 8-bit characters, one per UTF-16 code unit, so only code
  units below 256 are covered.
\<close>

datatype jsval =
    JUndefined
  | JNull
  | JBool bool
  | JNum int
  | JStr string
  | JArr "jsval list"
  | JObj "(string \<times> jsval) list"

datatype error = Error string | TypeError string

definition backslash :: char where
  "backslash = CHR 0x5C"

definition dquote :: char where
  "dquote = CHR 0x22"

definition hexDigits :: string where
  "hexDigits = ''0123456789abcdef''"

function natToString :: "int \<Rightarrow> int \<Rightarrow> string" where
  "natToString radix n =
     (if radix < 2 \<or> n < radix then [hexDigits ! nat n]
      else natToString radix (n div radix) @ [hexDigits ! nat (n mod radix)])"
  by pat_completeness auto
termination
proof (relation "measure (\<lambda>(radix, n). nat n)")
  show "wf (measure (\<lambda>(radix, n). nat n))"
    by simp
next
  fix radix n :: int
  assume "\<not> (radix < 2 \<or> n < radix)"
  then have "2 \<le> radix" and "radix \<le> n"
    by simp_all
  then have "n div radix < n"
    by (simp add: int_div_less_self)
  with \<open>2 \<le> radix\<close> \<open>radix \<le> n\<close> show "((radix, n div radix), (radix, n)) \<in> measure (\<lambda>(radix, n). nat n)"
    by simp
qed

declare natToString.simps [simp del]

text \<open>\<^verbatim>\<open>Number.prototype.toString(radix)\<close> on an integer: a minus sign, then the magnitude.\<close>

definition numToString :: "int \<Rightarrow> int \<Rightarrow> string" where
  "numToString radix i =
     (if i < 0 then CHR ''-'' # natToString radix (- i) else natToString radix i)"

definition padStart :: "nat \<Rightarrow> char \<Rightarrow> string \<Rightarrow> string" where
  "padStart n c s = replicate (n - length s) c @ s"

text \<open>\<^verbatim>\<open>Array.prototype.join\<close>.\<close>

fun join :: "string \<Rightarrow> string list \<Rightarrow> string" where
  "join sep [] = []"
| "join sep [x] = x"
| "join sep (x # y # ys) = x @ sep @ join sep (y # ys)"

text \<open>The escaping of one character inside a JSON string literal (\<^verbatim>\<open>QuoteJSONString\<close>).\<close>

definition quoteChar :: "char \<Rightarrow> string" where
  "quoteChar c =
     (if c = dquote then [backslash, dquote]
      else if c = backslash then [backslash, backslash]
      else if c = CHR 0x08 then [backslash, CHR ''b'']
      else if c = CHR 0x0C then [backslash, CHR ''f'']
      else if c = CHR 0x0A then [backslash, CHR ''n'']
      else if c = CHR 0x0D then [backslash, CHR ''r'']
      else if c = CHR 0x09 then [backslash, CHR ''t'']
      else if (of_char c :: nat) < 32
        then [backslash, CHR ''u''] @ padStart 4 CHR ''0'' (natToString 16 (of_char c))
      else [c])"

definition quoteJSON :: "string \<Rightarrow> string" where
  "quoteJSON s = [dquote] @ concat (map quoteChar s) @ [dquote]"

definition memberText :: "string \<times> string option \<Rightarrow> string list" where
  "memberText kt = (case snd kt of None \<Rightarrow> [] | Some t \<Rightarrow> [quoteJSON (fst kt) @ '':'' @ t])"

text \<open>
  \<^verbatim>\<open>JSON.stringify(value)\<close> without indentation. \<open>None\<close> is the result \<^verbatim>\<open>undefined\<close>:
  an undefined array element is written \<^verbatim>\<open>null\<close>, an undefined property is left out.
\<close>

primrec stringify :: "jsval \<Rightarrow> string option" where
  "stringify JUndefined = None"
| "stringify JNull = Some ''null''"
| "stringify (JBool b) = Some (if b then ''true'' else ''false'')"
| "stringify (JNum n) = Some (numToString 10 n)"
| "stringify (JStr s) = Some (quoteJSON s)"
| "stringify (JArr xs) =
     Some (''['' @ join '','' (map (case_option ''null'' id) (map stringify xs)) @ '']'')"
| "stringify (JObj kvs) =
     Some (''{'' @ join '','' (concat (map memberText (map (map_prod id stringify) kvs))) @ ''}'')"

text \<open>
  The loop shared by \<^verbatim>\<open>calculatePayloadChecksum\<close> and \<^verbatim>\<open>generateChecksum\<close>:
  \<^verbatim>\<open>hash = ((hash << 5) - hash) + code; hash = hash & hash\<close>. The bitwise operators
  work on 32-bit integers and the sum in between is exact, so one round is 32-bit
  wrap-around arithmetic.
\<close>

definition hashStep :: "32 word \<Rightarrow> char \<Rightarrow> 32 word" where
  "hashStep hash c = (push_bit 5 hash - hash) + of_nat (of_char c)"

definition rollingHash :: "string \<Rightarrow> 32 word" where
  "rollingHash str = foldl hashStep 0 str"

section \<open>The manifest state machine (manifest.ts)\<close>

datatype JobStatus =
  Created | Pending | Queued | Downloading | Burning | Verifying | Complete | Failed | Cancelled

datatype Priority = Low | Normal | High | Urgent

fun statusName :: "JobStatus \<Rightarrow> string" where
  "statusName Created = ''created''"
| "statusName Pending = ''pending''"
| "statusName Queued = ''queued''"
| "statusName Downloading = ''downloading''"
| "statusName Burning = ''burning''"
| "statusName Verifying = ''verifying''"
| "statusName Complete = ''complete''"
| "statusName Failed = ''failed''"
| "statusName Cancelled = ''cancelled''"

fun priorityName :: "Priority \<Rightarrow> string" where
  "priorityName Low = ''low''"
| "priorityName Normal = ''normal''"
| "priorityName High = ''high''"
| "priorityName Urgent = ''urgent''"

record StateTransition =
  st_from :: "JobStatus option"
  st_to :: JobStatus
  st_timestamp :: string
  st_actor :: "string option"
  st_reason :: "string option"

record AuditEntry =
  ae_timestamp :: string
  ae_action :: string
  ae_actor :: string
  ae_details :: "jsval option"

record PayloadFile =
  pf_path :: string
  pf_size :: "int option"
  pf_checksum :: "string option"
  pf_include :: bool

record JobSource =
  src_platform :: string
  src_workspace :: string
  src_user :: "string option"

record JobInfo =
  job_id :: string
  job_created :: string
  job_updated :: string
  job_status :: JobStatus
  job_priority :: Priority
  job_source :: JobSource

datatype DeviceType = Dvd | Bluray | Cloud | Archive

datatype DiscType = DVD_R | DVD_plus_R | DVD_RW | BD_R | BD_RE

datatype DiscSpeed = Auto | Speed int

record Device =
  dev_name :: string
  dev_type :: DeviceType
  dev_model :: "string option"
  dev_connection :: "string option"

record DiscSettings =
  ds_type :: DiscType
  ds_speed :: DiscSpeed
  ds_verify :: bool
  ds_finalize :: bool
  ds_label :: "string option"

record Target =
  tg_device :: Device
  tg_destinations :: "string list"
  tg_discSettings :: DiscSettings

record Payload =
  pl_totalFiles :: nat
  pl_totalSize :: "int option"
  pl_checksum :: "string option"
  pl_files :: "PayloadFile list"

record Lifecycle =
  states :: "StateTransition list"
  currentState :: JobStatus
  retryCount :: int
  maxRetries :: int

record Notifications =
  onStateChange :: bool
  onComplete :: bool
  onError :: bool
  webhooks :: "string list option"

record Admin =
  createdBy :: "string option"
  approvedBy :: "string option"
  executorId :: "string option"
  auditLog :: "AuditEntry list"

record BurnManifest =
  m_version :: string
  m_schema :: string
  m_job :: JobInfo
  m_target :: Target
  m_payload :: Payload
  m_lifecycle :: Lifecycle
  m_notifications :: Notifications
  m_admin :: Admin

definition MANIFEST_VERSION :: string where
  "MANIFEST_VERSION = ''2.0.0''"

text \<open>
  \<^verbatim>\<open>calculatePayloadChecksum\<close> sorts its argument in place (the default sort compares the
  strings code unit by code unit), joins the sorted names with a line feed and hashes the
  text. The sorted array is returned beside the checksum, since the caller's array has
  changed.
\<close>

definition calculatePayloadChecksum :: "string list \<Rightarrow> string \<times> string list" where
  "calculatePayloadChecksum files =
     (let sorted = sort files;
          content = join [CHR 0x0A] sorted;
          hash = rollingHash content
      in (''sha256:'' @ padStart 16 CHR ''0'' (natToString 16 \<bar>sint hash\<bar>), sorted))"

record ManifestOptions =
  opt_jobId :: string
  opt_files :: "string list"
  opt_target :: "string option"
  opt_priority :: "Priority option"
  opt_device :: "string option"

text \<open>\<^verbatim>\<open>String.prototype.split\<close> on a one-character separator.\<close>

fun splitOn :: "char \<Rightarrow> string \<Rightarrow> string list" where
  "splitOn sep [] = [[]]"
| "splitOn sep (c # cs) =
     (if c = sep then [] # splitOn sep cs
      else (case splitOn sep cs of [] \<Rightarrow> [[c]] | w # ws \<Rightarrow> (c # w) # ws))"

text \<open>\<^verbatim>\<open>options.jobId.split('-')[1]?.substring(0, 10) || 'backup'\<close>\<close>

definition discLabel :: "string \<Rightarrow> string" where
  "discLabel jobId =
     ''DiscBurn_'' @
       (case splitOn CHR ''-'' jobId of
          _ # part # _ \<Rightarrow> (if take 10 part = [] then ''backup'' else take 10 part)
        | _ \<Rightarrow> ''backup'')"

text \<open>
  \<^verbatim>\<open>createManifest(options)\<close>; \<open>now\<close> is \<^verbatim>\<open>new Date().toISOString()\<close> and \<open>cwd\<close> is
  \<^verbatim>\<open>process.cwd()\<close>. The checksum is computed before the file list is read, so the
  list is the sorted one.
\<close>

definition createManifest :: "ManifestOptions \<Rightarrow> string \<Rightarrow> string \<Rightarrow> BurnManifest" where
  "createManifest options now cwd =
     (let (checksum, files) = calculatePayloadChecksum (opt_files options) in
      \<lparr> m_version = MANIFEST_VERSION,
        m_schema = ''discburn-manifest-v2'',
        m_job = \<lparr> job_id = opt_jobId options, job_created = now, job_updated = now,
                job_status = Created,
                job_priority = (case opt_priority options of None \<Rightarrow> Normal | Some p \<Rightarrow> p),
                job_source = \<lparr> src_platform = ''Replit'', src_workspace = cwd,
                               src_user = None \<rparr> \<rparr>,
        m_target = \<lparr> tg_device = \<lparr> dev_name = (case opt_device options of
                                                  None \<Rightarrow> ''HP DVD557s''
                                                | Some d \<Rightarrow> if d = [] then ''HP DVD557s'' else d),
                                    dev_type = Dvd, dev_model = Some ''HP DVD557s'',
                                    dev_connection = Some ''usb'' \<rparr>,
                   tg_destinations = [''OneDrive'', ''SovereignCapsule''],
                   tg_discSettings = \<lparr> ds_type = DVD_R, ds_speed = Auto, ds_verify = True,
                                        ds_finalize = True,
                                        ds_label = Some (discLabel (opt_jobId options)) \<rparr> \<rparr>,
        m_payload = \<lparr> pl_totalFiles = length (opt_files options),
                    pl_totalSize = Some 0,
                    pl_checksum = Some checksum,
                    pl_files = map (\<lambda>f. \<lparr> pf_path = f, pf_size = None, pf_checksum = None,
                                            pf_include = True \<rparr>) files \<rparr>,
        m_lifecycle = \<lparr> states = [\<lparr> st_from = None, st_to = Created, st_timestamp = now,
                                     st_actor = Some ''system'',
                                     st_reason = Some ''Job initialized'' \<rparr>],
                      currentState = Created, retryCount = 0, maxRetries = 3 \<rparr>,
        m_notifications = \<lparr> onStateChange = True, onComplete = True, onError = True,
                          webhooks = None \<rparr>,
        m_admin = \<lparr> createdBy = None, approvedBy = None, executorId = None,
                  auditLog = [\<lparr> ae_timestamp = now, ae_action = ''JOB_CREATED'',
                                ae_actor = ''system'',
                                ae_details = Some (JObj [(''fileCount'',
                                   JNum (int (length (opt_files options))))]) \<rparr>] \<rparr> \<rparr>)"

fun VALID_TRANSITIONS :: "JobStatus \<Rightarrow> JobStatus list" where
  "VALID_TRANSITIONS Created = [Pending, Cancelled]"
| "VALID_TRANSITIONS Pending = [Queued, Cancelled]"
| "VALID_TRANSITIONS Queued = [Downloading, Cancelled]"
| "VALID_TRANSITIONS Downloading = [Burning, Failed, Cancelled]"
| "VALID_TRANSITIONS Burning = [Verifying, Failed, Cancelled]"
| "VALID_TRANSITIONS Verifying = [Complete, Failed]"
| "VALID_TRANSITIONS Complete = []"
| "VALID_TRANSITIONS Failed = [Pending]"
| "VALID_TRANSITIONS Cancelled = [Pending]"

definition isValidTransition :: "JobStatus \<Rightarrow> JobStatus \<Rightarrow> bool" where
  "isValidTransition from_state to_state \<longleftrightarrow> to_state \<in> set (VALID_TRANSITIONS from_state)"

text \<open>The error thrown by \<^verbatim>\<open>transitionState\<close> on an illegal pair.\<close>

definition InvalidTransition :: "JobStatus \<Rightarrow> JobStatus \<Rightarrow> error" where
  "InvalidTransition previousState newState =
     Error (''Invalid state transition: '' @ statusName previousState @ '' -> ''
            @ statusName newState)"

definition undefinedOr :: "string option \<Rightarrow> jsval" where
  "undefinedOr s = (case s of None \<Rightarrow> JUndefined | Some t \<Rightarrow> JStr t)"

text \<open>
  \<^verbatim>\<open>transitionState(manifest, newState, actor = 'system', reason?)\<close> changes the manifest
  it is given and returns that same object, or throws before the first change. The
  model returns the outcome together with the manifest object as the call leaves it;
  \<open>actor = None\<close> is the omitted argument.
\<close>

definition transitionState ::
  "BurnManifest \<Rightarrow> JobStatus \<Rightarrow> string option \<Rightarrow> string option \<Rightarrow> string
     \<Rightarrow> (error + unit) \<times> BurnManifest" where
  "transitionState manifest newState actorArg reason now =
     (let actor = (case actorArg of None \<Rightarrow> ''system'' | Some a \<Rightarrow> a);
          previousState = currentState (m_lifecycle manifest)
      in if \<not> isValidTransition previousState newState
         then (Inl (InvalidTransition previousState newState), manifest)
         else
           (let m1 = manifest\<lparr> m_lifecycle := (m_lifecycle manifest)\<lparr> states :=
                        states (m_lifecycle manifest) @
                          [\<lparr> st_from = Some previousState, st_to = newState,
                             st_timestamp = now, st_actor = Some actor,
                             st_reason = reason \<rparr>] \<rparr> \<rparr>;
                m2 = m1\<lparr> m_lifecycle := (m_lifecycle m1)\<lparr> currentState := newState \<rparr> \<rparr>;
                m3 = m2\<lparr> m_job := (m_job m2)\<lparr> job_status := newState \<rparr> \<rparr>;
                m4 = m3\<lparr> m_job := (m_job m3)\<lparr> job_updated := now \<rparr> \<rparr>;
                m5 = m4\<lparr> m_admin := (m_admin m4)\<lparr> auditLog := auditLog (m_admin m4) @
                        [\<lparr> ae_timestamp = now, ae_action = ''STATE_TRANSITION'',
                           ae_actor = actor,
                           ae_details = Some (JObj [(''from'', JStr (statusName previousState)),
                                                    (''to'', JStr (statusName newState)),
                                                    (''reason'', undefinedOr reason)]) \<rparr>] \<rparr> \<rparr>
            in (Inr (), m5)))"

text \<open>
  The transition table as the specification prints it (section 4.1), one pair for each
  allowed move.
\<close>

definition transition_table :: "(JobStatus \<times> JobStatus) list" where
  "transition_table =
     [(Created, Pending), (Created, Cancelled),
      (Pending, Queued), (Pending, Cancelled),
      (Queued, Downloading), (Queued, Cancelled),
      (Downloading, Burning), (Downloading, Failed), (Downloading, Cancelled),
      (Burning, Verifying), (Burning, Failed), (Burning, Cancelled),
      (Verifying, Complete), (Verifying, Failed),
      (Failed, Pending),
      (Cancelled, Pending)]"

text \<open>
  The manifests a job can hold: \<open>evolves m m'\<close> when \<open>m'\<close> is what \<open>m\<close> has become after
  any number of \<^verbatim>\<open>transitionState\<close> calls, failed ones included.
\<close>

inductive evolves :: "BurnManifest \<Rightarrow> BurnManifest \<Rightarrow> bool" where
  evolves_refl: "evolves m m"
| evolves_step:
    "evolves m m' \<Longrightarrow> evolves m (snd (transitionState m' newState actorArg reason now))"

section \<open>The signal codec and the security gateway (usb-signal.ts)\<close>

text \<open>
  The blocked patterns are regular expressions with the \<^verbatim>\<open>i\<close> flag, built from literal
  characters, \<^verbatim>\<open>\s\<close> and \<^verbatim>\<open>\w\<close>, the quantifiers \<^verbatim>\<open>*\<close> and \<^verbatim>\<open>+\<close> on one character,
  and alternation at top level. \<open>re_source\<close> is the text the expression prints as.
\<close>

datatype CharClass = Lit char | Space | WordChar

datatype Quant = One | Star | Plus

record RegExp =
  re_source :: string
  re_alts :: "(CharClass \<times> Quant) list list"

definition toLowerChar :: "char \<Rightarrow> char" where
  "toLowerChar c =
     (if (65::nat) \<le> of_char c \<and> (of_char c :: nat) \<le> 90 then char_of (of_char c + (32::nat)) else c)"

definition isWordChar :: "char \<Rightarrow> bool" where
  "isWordChar c =
     (let n = (of_char c :: nat)
      in (48 \<le> n \<and> n \<le> 57) \<or> (65 \<le> n \<and> n \<le> 90) \<or> (97 \<le> n \<and> n \<le> 122) \<or> n = 95)"

definition isSpaceChar :: "char \<Rightarrow> bool" where
  "isSpaceChar c = ((of_char c :: nat) \<in> {9, 10, 11, 12, 13, 32, 160})"

fun classMatches :: "CharClass \<Rightarrow> char \<Rightarrow> bool" where
  "classMatches (Lit l) c = (toLowerChar c = toLowerChar l)"
| "classMatches Space c = isSpaceChar c"
| "classMatches WordChar c = isWordChar c"

fun matchHere :: "(CharClass \<times> Quant) list \<Rightarrow> string \<Rightarrow> bool" where
  "matchHere [] s = True"
| "matchHere ((cl, One) # r) [] = False"
| "matchHere ((cl, One) # r) (c # cs) = (classMatches cl c \<and> matchHere r cs)"
| "matchHere ((cl, Plus) # r) [] = False"
| "matchHere ((cl, Plus) # r) (c # cs) = (classMatches cl c \<and> matchHere ((cl, Star) # r) cs)"
| "matchHere ((cl, Star) # r) [] = matchHere r []"
| "matchHere ((cl, Star) # r) (c # cs) =
     ((classMatches cl c \<and> matchHere ((cl, Star) # r) cs) \<or> matchHere r (c # cs))"

fun matchAnywhere :: "(CharClass \<times> Quant) list \<Rightarrow> string \<Rightarrow> bool" where
  "matchAnywhere p [] = matchHere p []"
| "matchAnywhere p (c # cs) = (matchHere p (c # cs) \<or> matchAnywhere p cs)"

text \<open>\<^verbatim>\<open>RegExp.prototype.test\<close>: is there a match anywhere in the text.\<close>

definition regexTest :: "RegExp \<Rightarrow> string \<Rightarrow> bool" where
  "regexTest re s = list_ex (\<lambda>alt. matchAnywhere alt s) (re_alts re)"

definition lits :: "string \<Rightarrow> (CharClass \<times> Quant) list" where
  "lits s = map (\<lambda>c. (Lit c, One)) s"

definition regex :: "string \<Rightarrow> (CharClass \<times> Quant) list list \<Rightarrow> RegExp" where
  "regex src alts = \<lparr> re_source = ''/'' @ src @ ''/i'', re_alts = alts \<rparr>"

definition blockedPatternsDefault :: "RegExp list" where
  "blockedPatternsDefault =
     [regex (''eval'' @ [backslash] @ ''s*'' @ [backslash] @ ''('')
        [lits ''eval'' @ [(Space, Star)] @ lits ''(''],
      regex (''Function'' @ [backslash] @ ''s*'' @ [backslash] @ ''('')
        [lits ''Function'' @ [(Space, Star)] @ lits ''(''],
      regex ''<script'' [lits ''<script''],
      regex ''javascript:'' [lits ''javascript:''],
      regex (''on'' @ [backslash] @ ''w+'' @ [backslash] @ ''s*='')
        [lits ''on'' @ [(WordChar, Plus), (Space, Star)] @ lits ''=''],
      regex ''websocket'' [lits ''websocket''],
      regex (''ws:'' @ [backslash] @ ''/'' @ [backslash] @ ''/'') [lits ''ws://''],
      regex (''wss:'' @ [backslash] @ ''/'' @ [backslash] @ ''/'') [lits ''wss://''],
      regex (''new'' @ [backslash] @ ''s+WebSocket'')
        [lits ''new'' @ [(Space, Plus)] @ lits ''WebSocket''],
      regex ([backslash] @ ''.connect'' @ [backslash] @ ''s*'' @ [backslash] @ ''('')
        [lits ''.connect'' @ [(Space, Star)] @ lits ''(''],
      regex (''socket'' @ [backslash] @ ''.io'') [lits ''socket.io'']]"

text \<open>The literal \<^verbatim>\<open>/websocket|ws:\/\/|wss:\/\/|socket\.io/i\<close> of the WebSocket check.\<close>

definition webSocketPattern :: RegExp where
  "webSocketPattern =
     regex (''websocket|ws:'' @ [backslash] @ ''/'' @ [backslash] @ ''/|wss:'' @ [backslash]
            @ ''/'' @ [backslash] @ ''/|socket'' @ [backslash] @ ''.io'')
       [lits ''websocket'', lits ''ws://'', lits ''wss://'', lits ''socket.io'']"

definition ALLOWED_SOURCES :: "string list" where
  "ALLOWED_SOURCES = [''dvd557s'', ''HP-DVD557s'', ''dvd557s_driver'']"

record HELM =
  active :: bool
  blockWebSockets :: bool
  blockScriptInjection :: bool
  onlyDVD557s :: bool
  maxSignalAge :: int
  rateLimitPerMinute :: int
  blockedPatterns :: "RegExp list"

definition HELM_initial :: HELM where
  "HELM_initial =
     \<lparr> active = True, blockWebSockets = True, blockScriptInjection = True,
       onlyDVD557s = True, maxSignalAge = 30000, rateLimitPerMinute = 60,
       blockedPatterns = blockedPatternsDefault \<rparr>"

record RateTracker =
  count :: int
  resetTime :: int

text \<open>\<^verbatim>\<open>signalRateTracker\<close> as the module creates it when it is loaded at time \<open>loaded\<close>.\<close>

definition signalRateTracker_initial :: "int \<Rightarrow> RateTracker" where
  "signalRateTracker_initial loaded = \<lparr> count = 0, resetTime = loaded + 60000 \<rparr>"

datatype SignalType = Command | Status | Ack | Data

datatype Direction = Outbound | Inbound

record SignalPacket =
  sig_type :: SignalType
  sig_direction :: Direction
  sig_timestamp :: int
  sig_payload :: jsval
  sig_checksum :: string
  sig_source :: "string option"
  sig_deviceId :: "string option"

record SecurityResult =
  allowed :: bool
  reason :: "string option"

definition allow :: SecurityResult where
  "allow = \<lparr> allowed = True, reason = None \<rparr>"

definition block :: "string \<Rightarrow> SecurityResult" where
  "block why = \<lparr> allowed = False, reason = Some why \<rparr>"

text \<open>Truthiness, the operator \<^verbatim>\<open>||\<close>, property access and \<^verbatim>\<open>===\<close> on values.\<close>

fun truthy :: "jsval \<Rightarrow> bool" where
  "truthy JUndefined = False"
| "truthy JNull = False"
| "truthy (JBool b) = b"
| "truthy (JNum n) = (n \<noteq> 0)"
| "truthy (JStr s) = (s \<noteq> [])"
| "truthy (JArr xs) = True"
| "truthy (JObj kvs) = True"

definition jsOr :: "jsval \<Rightarrow> jsval \<Rightarrow> jsval" where
  "jsOr a b = (if truthy a then a else b)"

text \<open>
  \<^verbatim>\<open>value?.key\<close> for the keys the sources read (\<^verbatim>\<open>source\<close>, \<^verbatim>\<open>deviceId\<close>, \<^verbatim>\<open>action\<close>,
  \<^verbatim>\<open>jobId\<close>, \<^verbatim>\<open>priority\<close>, \<^verbatim>\<open>files\<close>): only an object has them.
\<close>

fun getProp :: "jsval \<Rightarrow> string \<Rightarrow> jsval" where
  "getProp (JObj kvs) k = (case map_of kvs k of None \<Rightarrow> JUndefined | Some v \<Rightarrow> v)"
| "getProp v k = JUndefined"

fun strictEq :: "jsval \<Rightarrow> jsval \<Rightarrow> bool" where
  "strictEq (JArr xs) b = False"
| "strictEq (JObj kvs) b = False"
| "strictEq a b = (a = b)"

text \<open>\<^verbatim>\<open>ALLOWED_SOURCES.includes(x)\<close>: only a string can be in a list of strings.\<close>

fun includesSource :: "jsval \<Rightarrow> bool" where
  "includesSource (JStr s) = (s \<in> set ALLOWED_SOURCES)"
| "includesSource v = False"

text \<open>
  \<^verbatim>\<open>generateChecksum(data)\<close>. \<^verbatim>\<open>JSON.stringify(undefined)\<close> is \<^verbatim>\<open>undefined\<close>, and reading
  its \<^verbatim>\<open>length\<close> throws a TypeError.
\<close>

definition generateChecksum :: "jsval \<Rightarrow> error + string" where
  "generateChecksum dat =
     (case stringify dat of
        None \<Rightarrow> Inl (TypeError ''Cannot read properties of undefined (reading 'length')'')
      | Some str \<Rightarrow> Inr (numToString 16 (sint (rollingHash str))))"

definition createSignal :: "SignalType \<Rightarrow> jsval \<Rightarrow> int \<Rightarrow> error + SignalPacket" where
  "createSignal ty pl now =
     (case generateChecksum pl of
        Inl e \<Rightarrow> Inl e
      | Inr digest \<Rightarrow> Inr \<lparr> sig_type = ty, sig_direction = Outbound, sig_timestamp = now,
                        sig_payload = pl, sig_checksum = digest,
                        sig_source = None, sig_deviceId = None \<rparr>)"

text \<open>\<^verbatim>\<open>JSON.stringify(signal.payload || {})\<close>\<close>

definition payloadText :: "SignalPacket \<Rightarrow> string" where
  "payloadText signal =
     (case stringify (jsOr (sig_payload signal) (JObj [])) of
        None \<Rightarrow> ''undefined'' | Some t \<Rightarrow> t)"

text \<open>
  \<^verbatim>\<open>signal.source || signal.payload?.source || ''\<close> and the same for \<^verbatim>\<open>deviceId\<close>.
\<close>

definition declaredSource :: "SignalPacket \<Rightarrow> jsval" where
  "declaredSource signal =
     jsOr (undefinedOr (sig_source signal))
       (jsOr (getProp (sig_payload signal) ''source'') (JStr []))"

definition declaredDeviceId :: "SignalPacket \<Rightarrow> jsval" where
  "declaredDeviceId signal =
     jsOr (undefinedOr (sig_deviceId signal))
       (jsOr (getProp (sig_payload signal) ''deviceId'') (JStr []))"

text \<open>
  \<^verbatim>\<open>validateSignalSecurity(signal)\<close> reads and writes the module's \<^verbatim>\<open>HELM\<close> and
  \<^verbatim>\<open>signalRateTracker\<close>; the model takes both, and the clock reading \<open>now\<close> for
  \<^verbatim>\<open>Date.now()\<close> (one reading for the whole call), and returns the tracker as the call
  leaves it. \<open>Inl\<close> is an exception leaving the function.
\<close>

definition validateSignalSecurity ::
  "HELM \<Rightarrow> RateTracker \<Rightarrow> int \<Rightarrow> SignalPacket \<Rightarrow> (error + SecurityResult) \<times> RateTracker" where
  "validateSignalSecurity h tracker now signal =
     (if \<not> active h then (Inr allow, tracker)
      else if onlyDVD557s h \<and> \<not> includesSource (declaredSource signal)
              \<and> \<not> includesSource (declaredDeviceId signal)
      then (Inr (block ''BLOCKED: Source not DVD557s''), tracker)
      else if now - sig_timestamp signal > maxSignalAge h
      then (Inr (block ''BLOCKED: Signal too old (replay attack prevention)''), tracker)
      else
        let t1 = (if now > resetTime tracker
                  then tracker\<lparr> count := 0, resetTime := now + 60000 \<rparr> else tracker);
            t2 = t1\<lparr> count := count t1 + 1 \<rparr>
        in
        if count t2 > rateLimitPerMinute h
        then (Inr (block ''BLOCKED: Rate limit exceeded''), t2)
        else
          (case (if blockScriptInjection h
                 then find (\<lambda>pattern. regexTest pattern (payloadText signal))
                        (blockedPatterns h)
                 else None) of
             Some pattern \<Rightarrow>
               (Inr (block (''BLOCKED: Script injection detected ('' @ re_source pattern
                            @ '')'')), t2)
           | None \<Rightarrow>
               if blockWebSockets h \<and> regexTest webSocketPattern (payloadText signal)
               then (Inr (block ''BLOCKED: WebSocket connection attempt''), t2)
               else
                 (case generateChecksum (sig_payload signal) of
                    Inl e \<Rightarrow> (Inl e, t2)
                  | Inr expectedChecksum \<Rightarrow>
                      if sig_checksum signal \<noteq> expectedChecksum
                      then (Inr (block ''BLOCKED: Invalid checksum (tampering detected)''), t2)
                      else (Inr allow, t2))))"

definition activateHelm :: "HELM \<Rightarrow> HELM" where
  "activateHelm h = h\<lparr> active := True \<rparr>"

definition deactivateHelm :: "HELM \<Rightarrow> HELM" where
  "deactivateHelm h = h\<lparr> active := False \<rparr>"

text \<open>
  A run of the gateway over envelopes arriving one after the other, each with the clock
  reading at its arrival: the results in order, and the tracker at the end. An exception
  ends the run.
\<close>

fun submitAll ::
  "HELM \<Rightarrow> RateTracker \<Rightarrow> (int \<times> SignalPacket) list
     \<Rightarrow> (error + SecurityResult list) \<times> RateTracker" where
  "submitAll h tracker [] = (Inr [], tracker)"
| "submitAll h tracker ((now, signal) # rest) =
     (case validateSignalSecurity h tracker now signal of
        (Inl e, tracker') \<Rightarrow> (Inl e, tracker')
      | (Inr r, tracker') \<Rightarrow>
          (case submitAll h tracker' rest of
             (Inl e, tracker'') \<Rightarrow> (Inl e, tracker'')
           | (Inr rs, tracker'') \<Rightarrow> (Inr (r # rs), tracker'')))"

section \<open>The shared store and the signal channel (onedrive.ts, usb-signal.ts)\<close>

text \<open>
  The store holds named texts. A text that \<^verbatim>\<open>JSON.parse\<close> accepts is kept as the value it
  denotes (\<open>Json\<close>), any other text as \<open>Raw\<close>. The list order is the order in which the
  store lists a folder. \<open>jsonValue v\<close> is the value denoted by \<^verbatim>\<open>JSON.stringify(v)\<close>.
\<close>

datatype blob = Json jsval | Raw string

primrec jsonValue :: "jsval \<Rightarrow> jsval" where
  "jsonValue JUndefined = JUndefined"
| "jsonValue JNull = JNull"
| "jsonValue (JBool b) = JBool b"
| "jsonValue (JNum n) = JNum n"
| "jsonValue (JStr s) = JStr s"
| "jsonValue (JArr xs) =
     JArr (map (\<lambda>v. if v = JUndefined then JNull else v) (map jsonValue xs))"
| "jsonValue (JObj kvs) =
     JObj (filter (\<lambda>kv. snd kv \<noteq> JUndefined) (map (map_prod id jsonValue) kvs))"

text \<open>String conversion of a value, as a template literal or a property key does it.\<close>

fun jsToString :: "jsval \<Rightarrow> string" where
  "jsToString JUndefined = ''undefined''"
| "jsToString JNull = ''null''"
| "jsToString (JBool b) = (if b then ''true'' else ''false'')"
| "jsToString (JNum n) = numToString 10 n"
| "jsToString (JStr s) = s"
| "jsToString (JArr xs) =
     join '','' (map (\<lambda>v. if v = JUndefined \<or> v = JNull then [] else jsToString v) xs)"
| "jsToString (JObj kvs) = ''[object Object]''"

record DeviceState =
  connected :: bool
  ready :: bool
  lastSignal :: int
  dv_deviceId :: "string option"
  capabilities :: "string list"

record ExecutorState =
  running :: bool
  currentJob :: "jsval option"
  completedJobs :: "jsval list"
  failedJobs :: "jsval list"

text \<open>
  Everything the executor process can read or change. \<open>clock\<close> is the reading of
  \<^verbatim>\<open>Date.now()\<close>; it moves only while the process sleeps. \<open>toISOString\<close> stands for
  \<^verbatim>\<open>Date.prototype.toISOString\<close>. \<open>outages\<close> is consumed one entry for each request to
  the store but the reads of the inbound queue: \<open>Some message\<close> makes that request fail
  with the message, \<open>None\<close> (or an exhausted list) lets it through. \<open>inboundReads\<close> is
  consumed one entry for each read of \<^verbatim>\<open>signals/inbound.json\<close>, which the other side
  writes: the queue found there, or \<open>None\<close> when nothing readable is found. \<open>device\<close>,
  \<open>signalQueue\<close> and \<open>responseBuffer\<close> are the module state of usb-signal.ts,
  \<open>executor\<close> that of burn-executor.ts.
\<close>

record World =
  clock :: int
  toISOString :: "int \<Rightarrow> string"
  store :: "(string \<times> blob) list"
  outages :: "string option list"
  inboundReads :: "SignalPacket list option list"
  helm :: HELM
  signalRateTracker :: RateTracker
  device :: DeviceState
  signalQueue :: "SignalPacket list"
  responseBuffer :: "SignalPacket list"
  executor :: ExecutorState

type_synonym 'a io = "World \<Rightarrow> (error + 'a) \<times> World"

definition returnIO :: "'a \<Rightarrow> 'a io" where
  "returnIO x w = (Inr x, w)"

definition bindIO :: "'a io \<Rightarrow> ('a \<Rightarrow> 'b io) \<Rightarrow> 'b io" where
  "bindIO m f w = (case m w of (Inl e, w') \<Rightarrow> (Inl e, w') | (Inr x, w') \<Rightarrow> f x w')"

definition thenIO :: "'a io \<Rightarrow> 'b io \<Rightarrow> 'b io" where
  "thenIO m k = bindIO m (\<lambda>_. k)"

definition sleep :: "int \<Rightarrow> unit io" where
  "sleep ms w = (Inr (), w\<lparr> clock := clock w + ms \<rparr>)"

definition nextOutage :: "World \<Rightarrow> string option \<times> World" where
  "nextOutage w =
     (case outages w of [] \<Rightarrow> (None, w) | out # rest \<Rightarrow> (out, w\<lparr> outages := rest \<rparr>))"

definition uploadToOneDrive :: "string \<Rightarrow> blob \<Rightarrow> unit io" where
  "uploadToOneDrive fileName content w =
     (case nextOutage w of
        (Some message, w') \<Rightarrow> (Inl (Error message), w')
      | (None, w') \<Rightarrow> (Inr (), w'\<lparr> store := AList.update fileName content (store w') \<rparr>))"

text \<open>\<^verbatim>\<open>readFromOneDrive\<close> catches every failure and answers \<^verbatim>\<open>null\<close>.\<close>

definition readFromOneDrive :: "string \<Rightarrow> World \<Rightarrow> blob option \<times> World" where
  "readFromOneDrive fileName w =
     (case nextOutage w of
        (Some message, w') \<Rightarrow> (None, w')
      | (None, w') \<Rightarrow> (map_of (store w') fileName, w'))"

text \<open>\<^verbatim>\<open>deleteFromOneDrive\<close> catches every failure and answers \<^verbatim>\<open>false\<close>.\<close>

definition deleteFromOneDrive :: "string \<Rightarrow> World \<Rightarrow> bool \<times> World" where
  "deleteFromOneDrive fileName w =
     (case nextOutage w of
        (Some message, w') \<Rightarrow> (False, w')
      | (None, w') \<Rightarrow>
          (fileName \<in> fst ` set (store w'), w'\<lparr> store := AList.delete fileName (store w') \<rparr>))"

definition childName :: "string \<Rightarrow> string \<Rightarrow> string option" where
  "childName folder path =
     (if prefix (folder @ ''/'') path \<and> CHR ''/'' \<notin> set (drop (length folder + 1) path)
      then Some (drop (length folder + 1) path) else None)"

text \<open>
  \<^verbatim>\<open>listOneDriveFiles(folderPath)\<close>: the names of the files of the folder; the argument
  names the folder from the drive's root, the other requests from \<^verbatim>\<open>/DiscBurn/\<close>.
  A missing folder (status 404) is an empty listing, another failure is thrown.
\<close>

definition listOneDriveFiles :: "string \<Rightarrow> string list io" where
  "listOneDriveFiles folderPath w =
     (case nextOutage w of
        (Some message, w') \<Rightarrow> (Inl (Error message), w')
      | (None, w') \<Rightarrow>
          (Inr (List.map_filter (\<lambda>entry. childName (drop (length ''/DiscBurn/'') folderPath)
                                            (fst entry)) (store w')), w'))"

definition signalTypeName :: "SignalType \<Rightarrow> string" where
  "signalTypeName ty =
     (case ty of Command \<Rightarrow> ''command'' | Status \<Rightarrow> ''status'' | Ack \<Rightarrow> ''ack''
      | Data \<Rightarrow> ''data'')"

definition signalValue :: "SignalPacket \<Rightarrow> jsval" where
  "signalValue signal =
     JObj [(''type'', JStr (signalTypeName (sig_type signal))),
           (''direction'', JStr (case sig_direction signal of Outbound \<Rightarrow> ''outbound''
                                                             | Inbound \<Rightarrow> ''inbound'')),
           (''timestamp'', JNum (sig_timestamp signal)),
           (''payload'', sig_payload signal),
           (''checksum'', JStr (sig_checksum signal)),
           (''source'', undefinedOr (sig_source signal)),
           (''deviceId'', undefinedOr (sig_deviceId signal))]"

text \<open>The payload \<^verbatim>\<open>sendCommand\<close> wraps a command in.\<close>

definition commandPayload :: "string \<Rightarrow> jsval \<Rightarrow> jsval" where
  "commandPayload command params =
     JObj [(''action'', JStr command), (''params'', params),
           (''source'', JStr ''phone-cli''), (''target'', JStr ''dvd557s'')]"

text \<open>The content of \<^verbatim>\<open>signals/outbound.json\<close>: the last ten signals of the queue.\<close>

definition outboundFile :: "SignalPacket list \<Rightarrow> int \<Rightarrow> blob" where
  "outboundFile queue now =
     Json (jsonValue (JObj
       [(''queue'', JArr (map signalValue (drop (length queue - 10) queue))),
        (''lastUpdate'', JNum now)]))"

text \<open>\<^verbatim>\<open>sendCommand(command, params)\<close>; \<open>params = JUndefined\<close> is the omitted argument.\<close>

definition sendCommand :: "string \<Rightarrow> jsval \<Rightarrow> SignalPacket io" where
  "sendCommand command params w =
     (case createSignal Command (commandPayload command params) (clock w) of
        Inl e \<Rightarrow> (Inl e, w)
      | Inr signal \<Rightarrow>
          (let w1 = w\<lparr> signalQueue := signalQueue w @ [signal] \<rparr>
           in bindIO
                (uploadToOneDrive ''signals/outbound.json''
                   (outboundFile (signalQueue w1) (clock w1)))
                (\<lambda>_. returnIO signal) w1))"

text \<open>The loop of \<^verbatim>\<open>receiveSignals\<close> that puts each new signal before the gateway.\<close>

fun validateSignals ::
  "HELM \<Rightarrow> int \<Rightarrow> SignalPacket list \<Rightarrow> RateTracker
     \<Rightarrow> (error + SignalPacket list) \<times> RateTracker" where
  "validateSignals h now [] tracker = (Inr [], tracker)"
| "validateSignals h now (signal # rest) tracker =
     (case validateSignalSecurity h tracker now signal of
        (Inl e, tracker') \<Rightarrow> (Inl e, tracker')
      | (Inr security, tracker') \<Rightarrow>
          (case validateSignals h now rest tracker' of
             (Inl e, tracker'') \<Rightarrow> (Inl e, tracker'')
           | (Inr validated, tracker'') \<Rightarrow>
               (Inr (if allowed security then signal # validated else validated), tracker'')))"

text \<open>
  \<^verbatim>\<open>receiveSignals()\<close>: the signals of the inbound queue that are newer than the last
  accepted one and pass the gateway. Whatever is thrown on the way is caught and the
  answer is the empty list; the rate tracker keeps what the gateway did until then.
\<close>

definition receiveSignals :: "World \<Rightarrow> SignalPacket list \<times> World" where
  "receiveSignals w =
     (case inboundReads w of
        [] \<Rightarrow> ([], w)
      | None # later \<Rightarrow> ([], w\<lparr> inboundReads := later \<rparr>)
      | Some queue # later \<Rightarrow>
          (let w1 = w\<lparr> inboundReads := later \<rparr>;
               newSignals = filter (\<lambda>s. sig_timestamp s > lastSignal (device w1)) queue
           in case validateSignals (helm w1) (clock w1) newSignals (signalRateTracker w1) of
                (Inl e, tracker) \<Rightarrow> ([], w1\<lparr> signalRateTracker := tracker \<rparr>)
              | (Inr validatedSignals, tracker) \<Rightarrow>
                  (let w2 = w1\<lparr> signalRateTracker := tracker \<rparr>
                   in if validatedSignals \<noteq> []
                      then (validatedSignals,
                            w2\<lparr> responseBuffer := responseBuffer w2 @ validatedSignals,
                                device := (device w2)\<lparr> lastSignal :=
                                  Max (set (map sig_timestamp validatedSignals)) \<rparr> \<rparr>)
                      else (validatedSignals, w2))))"

section \<open>The priority scheduler and executor (burn-executor.ts)\<close>

text \<open>
  \<^verbatim>\<open>priorityOrder[key]\<close> for the table \<^verbatim>\<open>{ urgent: 0, high: 1, normal: 2, low: 3 }\<close>;
  \<open>None\<close> is \<^verbatim>\<open>undefined\<close>. Properties inherited from \<^verbatim>\<open>Object.prototype\<close> are not
  modelled: a priority such as \<^verbatim>\<open>constructor\<close> or \<^verbatim>\<open>toString\<close>, for which the code reads
  an inherited function, is outside the model.
\<close>

definition priorityOrder :: "string \<Rightarrow> int option" where
  "priorityOrder key =
     (if key = ''urgent'' then Some 0
      else if key = ''high'' then Some 1
      else if key = ''normal'' then Some 2
      else if key = ''low'' then Some 3
      else None)"

text \<open>\<^verbatim>\<open>x || d\<close> on a number or \<^verbatim>\<open>undefined\<close>: zero is falsy.\<close>

definition orDefault :: "int option \<Rightarrow> int \<Rightarrow> int" where
  "orDefault x d = (case x of None \<Rightarrow> d | Some n \<Rightarrow> if n = 0 then d else n)"

text \<open>The rank the comparator gives a job: \<^verbatim>\<open>priorityOrder[a.priority] || 2\<close>.\<close>

definition jobRank :: "jsval \<Rightarrow> int" where
  "jobRank a = orDefault (priorityOrder (jsToString (getProp a ''priority''))) 2"

text \<open>
  Reading a property of \<^verbatim>\<open>null\<close> or \<^verbatim>\<open>undefined\<close> without \<^verbatim>\<open>?.\<close> throws a TypeError.
  \<^verbatim>\<open>JSON.parse\<close> can hand out \<^verbatim>\<open>null\<close> as a job, never \<^verbatim>\<open>undefined\<close>.
\<close>

definition nullish :: "jsval \<Rightarrow> bool" where
  "nullish v \<longleftrightarrow> v = JNull \<or> v = JUndefined"

text \<open>
  \<^verbatim>\<open>jobs.sort((a, b) => rank(a) - rank(b))\<close>: \<^verbatim>\<open>Array.prototype.sort\<close> is stable, and
  so is insertion by key. With two jobs or more every job is handed to the comparator,
  which throws on \<^verbatim>\<open>null\<close>.
\<close>

definition sortJobs :: "jsval list \<Rightarrow> error + jsval list" where
  "sortJobs jobs =
     (if 2 \<le> length jobs \<and> list_ex nullish jobs
      then Inl (TypeError ''Cannot read properties of null (reading 'priority')'')
      else Inr (sort_key jobRank jobs))"

definition errorMessage :: "error \<Rightarrow> string" where
  "errorMessage e = (case e of Error m \<Rightarrow> m | TypeError m \<Rightarrow> m)"

text \<open>The object \<^verbatim>\<open>statusUpdate\<close> of \<^verbatim>\<open>updateJobStatus\<close>; \<open>updated\<close> is the date text.\<close>

definition statusUpdate :: "jsval \<Rightarrow> JobStatus \<Rightarrow> int \<Rightarrow> string option \<Rightarrow> string \<Rightarrow> jsval" where
  "statusUpdate jobId status progress err updated =
     JObj [(''jobId'', jobId), (''status'', JStr (statusName status)),
           (''progress'', JNum progress), (''error'', undefinedOr err),
           (''updated'', JStr updated), (''device'', JStr ''HP DVD557s'')]"

definition updateJobStatus :: "jsval \<Rightarrow> JobStatus \<Rightarrow> int \<Rightarrow> string option \<Rightarrow> unit io" where
  "updateJobStatus jobId status progress err w =
     thenIO (uploadToOneDrive (''status/'' @ jsToString jobId @ ''.json'')
               (Json (jsonValue
                  (statusUpdate jobId status progress err (toISOString w (clock w))))))
       (thenIO (sendCommand ''status''
                  (statusUpdate jobId status progress err (toISOString w (clock w))))
          (returnIO ())) w"

text \<open>The object \<^verbatim>\<open>completionRecord\<close> of \<^verbatim>\<open>syncToOneDriveAfterBurn\<close>.\<close>

definition completionRecord :: "jsval \<Rightarrow> JobStatus \<Rightarrow> string option \<Rightarrow> string \<Rightarrow> jsval" where
  "completionRecord jobId finalStatus err completedAt =
     JObj [(''jobId'', jobId), (''status'', JStr (statusName finalStatus)),
           (''completedAt'', JStr completedAt), (''error'', undefinedOr err),
           (''device'', JStr ''HP DVD557s''), (''syncedToOneDrive'', JBool True)]"

text \<open>
  \<^verbatim>\<open>syncToOneDriveAfterBurn(jobId, finalStatus, error?)\<close>: the record goes to
  \<^verbatim>\<open>completed/\<close> and to the archive folder of the day, the date part of the date text.
\<close>

definition syncToOneDriveAfterBurn :: "jsval \<Rightarrow> JobStatus \<Rightarrow> string option \<Rightarrow> unit io" where
  "syncToOneDriveAfterBurn jobId finalStatus err w =
     thenIO (uploadToOneDrive (''completed/'' @ jsToString jobId @ ''.json'')
               (Json (jsonValue
                  (completionRecord jobId finalStatus err (toISOString w (clock w))))))
       (uploadToOneDrive
          (''archive/'' @ takeWhile (\<lambda>c. c \<noteq> CHR ''T'') (toISOString w (clock w))
             @ ''/'' @ jsToString jobId @ ''.json'')
          (Json (jsonValue
             (completionRecord jobId finalStatus err (toISOString w (clock w)))))) w"

text \<open>
  \<^verbatim>\<open>signals.find(s => s.payload?.action === 'cancel' && s.payload?.jobId === job.jobId)\<close>
\<close>

definition isCancelFor :: "jsval \<Rightarrow> SignalPacket \<Rightarrow> bool" where
  "isCancelFor job s =
     (strictEq (getProp (sig_payload s) ''action'') (JStr ''cancel'')
      \<and> strictEq (getProp (sig_payload s) ''jobId'') (getProp job ''jobId''))"

text \<open>
  The progress loop of \<^verbatim>\<open>processJob\<close>, from the given progress value on. The answer
  \<open>True\<close> is the \<^verbatim>\<open>return\<close> taken on a cancel signal, \<open>False\<close> the normal end of the loop.
\<close>

function burnLoop :: "jsval \<Rightarrow> int \<Rightarrow> World \<Rightarrow> (error + bool) \<times> World" where
  "burnLoop job progress w =
     (if progress \<le> 90 then
        (case thenIO (sleep 1000) (updateJobStatus (getProp job ''jobId'') Burning progress None) w of
           (Inl e, w1) \<Rightarrow> (Inl e, w1)
         | (Inr _, w1) \<Rightarrow>
             (case receiveSignals w1 of
                (signals, w2) \<Rightarrow>
                  (case find (isCancelFor job) signals of
                     Some cancelSignal \<Rightarrow>
                       thenIO (updateJobStatus (getProp job ''jobId'') Cancelled progress None)
                         (thenIO (syncToOneDriveAfterBurn (getProp job ''jobId'') Cancelled None)
                            (returnIO True)) w2
                   | None \<Rightarrow> burnLoop job (progress + 10) w2)))
      else (Inr False, w))"
  by pat_completeness auto
termination
  by (relation "measure (\<lambda>(job, progress, w). nat (100 - progress))") auto

declare burnLoop.simps [simp del]

text \<open>The \<^verbatim>\<open>try\<close> block of \<^verbatim>\<open>processJob\<close>; the answer is that of the progress loop.\<close>

definition processJobTry :: "jsval \<Rightarrow> bool io" where
  "processJobTry job =
     thenIO (updateJobStatus (getProp job ''jobId'') Queued 0 None)
       (thenIO (sendCommand ''burn''
                  (JObj [(''jobId'', getProp job ''jobId''), (''files'', getProp job ''files''),
                         (''priority'', getProp job ''priority'')]))
          (thenIO (updateJobStatus (getProp job ''jobId'') Burning 10 None)
             (bindIO (burnLoop job 20)
                (\<lambda>cancelled.
                   if cancelled then returnIO True
                   else
                     thenIO (updateJobStatus (getProp job ''jobId'') Verifying 95 None)
                       (thenIO (sleep 500)
                          (thenIO (updateJobStatus (getProp job ''jobId'') Complete 100 None)
                             (thenIO (syncToOneDriveAfterBurn (getProp job ''jobId'') Complete None)
                                (\<lambda>w. case deleteFromOneDrive
                                              (''pending/'' @ jsToString (getProp job ''jobId'')
                                                 @ ''.json'') w of
                                        (deleted, w') \<Rightarrow>
                                          (Inr False,
                                           w'\<lparr> executor := (executor w')\<lparr> completedJobs :=
                                                  completedJobs (executor w')
                                                    @ [getProp job ''jobId''] \<rparr> \<rparr>)))))))))"

text \<open>The \<^verbatim>\<open>catch\<close> block of \<^verbatim>\<open>processJob\<close>.\<close>

definition processJobCatch :: "jsval \<Rightarrow> error \<Rightarrow> unit io" where
  "processJobCatch job e =
     thenIO (updateJobStatus (getProp job ''jobId'') Failed 0 (Some (errorMessage e)))
       (thenIO (syncToOneDriveAfterBurn (getProp job ''jobId'') Failed (Some (errorMessage e)))
          (\<lambda>w. (Inr (), w\<lparr> executor := (executor w)\<lparr> failedJobs :=
                                failedJobs (executor w) @ [getProp job ''jobId''] \<rparr> \<rparr>)))"

definition clearCurrentJob :: "World \<Rightarrow> World" where
  "clearCurrentJob w = w\<lparr> executor := (executor w)\<lparr> currentJob := None \<rparr> \<rparr>"

text \<open>
  \<^verbatim>\<open>processJob(job)\<close>. A job that is \<^verbatim>\<open>null\<close> is stored in \<^verbatim>\<open>state.currentJob\<close>, and
  the log line before the \<^verbatim>\<open>try\<close> block throws on reading its \<^verbatim>\<open>jobId\<close>. The \<^verbatim>\<open>return\<close>
  on a cancel signal leaves the function at once; the other two ways out of the \<^verbatim>\<open>try\<close>
  statement pass the last statement, which clears \<^verbatim>\<open>state.currentJob\<close>.
\<close>

definition processJob :: "jsval \<Rightarrow> unit io" where
  "processJob job w =
     (if nullish job
      then (Inl (TypeError ''Cannot read properties of null (reading 'jobId')''),
            clearCurrentJob w)
      else
        (case processJobTry job (w\<lparr> executor := (executor w)\<lparr> currentJob := Some job \<rparr> \<rparr>) of
           (Inr cancelled, w1) \<Rightarrow> (Inr (), if cancelled then w1 else clearCurrentJob w1)
         | (Inl e, w1) \<Rightarrow>
             (case processJobCatch job e w1 of
                (Inl e', w2) \<Rightarrow> (Inl e', w2)
              | (Inr _, w2) \<Rightarrow> (Inr (), clearCurrentJob w2))))"

text \<open>
  The loop of \<^verbatim>\<open>pollAndProcess\<close> that reads and parses the listed descriptors: a missing
  or empty text and a text that does not parse are skipped.
\<close>

fun readJobs :: "string list \<Rightarrow> World \<Rightarrow> jsval list \<times> World" where
  "readJobs [] w = ([], w)"
| "readJobs (name # names) w =
     (case readFromOneDrive (''pending/'' @ name) w of
        (content, w1) \<Rightarrow>
          (case readJobs names w1 of
             (jobs, w2) \<Rightarrow>
               ((case content of Some (Json v) \<Rightarrow> v # jobs | _ \<Rightarrow> jobs), w2)))"

text \<open>\<^verbatim>\<open>pollAndProcess()\<close>: whatever is thrown is caught and logged.\<close>

definition pollAndProcess :: "World \<Rightarrow> World" where
  "pollAndProcess w =
     (case listOneDriveFiles ''/DiscBurn/pending'' w of
        (Inl e, w1) \<Rightarrow> w1
      | (Inr pendingFiles, w1) \<Rightarrow>
          if pendingFiles = [] then w1
          else
            (case readJobs pendingFiles w1 of
               (jobs, w2) \<Rightarrow>
                 (case sortJobs jobs of
                    Inl e \<Rightarrow> w2
                  | Inr [] \<Rightarrow> w2
                  | Inr (first # others) \<Rightarrow> snd (processJob first w2))))"

text \<open>
  \<^verbatim>\<open>startExecutor()\<close> polls until \<^verbatim>\<open>state.running\<close> is cleared, which nothing inside
  the loop does; \<open>executorTicks n\<close> is the effect of its first \<open>n\<close> rounds.
\<close>

fun executorTicks :: "nat \<Rightarrow> World \<Rightarrow> World" where
  "executorTicks 0 w = w"
| "executorTicks (Suc n) w =
     (if running (executor w)
      then executorTicks n (snd (sleep 5000 (pollAndProcess w)))
      else w)"

definition startExecutor :: "nat \<Rightarrow> World \<Rightarrow> World" where
  "startExecutor rounds w =
     executorTicks rounds (w\<lparr> executor := (executor w)\<lparr> running := True \<rparr> \<rparr>)"

section \<open>Auxiliary notions and concrete inputs\<close>

text \<open>The history invariant of a manifest: a last record exists and names the current state.\<close>

definition historyOk :: "BurnManifest \<Rightarrow> bool" where
  "historyOk m \<longleftrightarrow> states (m_lifecycle m) \<noteq> []
     \<and> st_to (last (states (m_lifecycle m))) = currentState (m_lifecycle m)"

definition sampleOptions :: ManifestOptions where
  "sampleOptions = \<lparr> opt_jobId = ''burn-2024'', opt_files = [''b.txt'', ''a.txt''],
     opt_target = None, opt_priority = Some High, opt_device = None \<rparr>"

text \<open>
  An envelope that passes every check of the gateway but the rate limit: it names an
  allowed source, is no older than the maximum age, matches no blocked pattern and
  carries the digest of its payload.
\<close>

definition otherwiseValid :: "HELM \<Rightarrow> int \<Rightarrow> SignalPacket \<Rightarrow> bool" where
  "otherwiseValid h now signal \<longleftrightarrow>
     (onlyDVD557s h \<longrightarrow> includesSource (declaredSource signal)
                          \<or> includesSource (declaredDeviceId signal))
     \<and> now - sig_timestamp signal \<le> maxSignalAge h
     \<and> (blockScriptInjection h \<longrightarrow>
          \<not> list_ex (\<lambda>pattern. regexTest pattern (payloadText signal)) (blockedPatterns h))
     \<and> (blockWebSockets h \<longrightarrow> \<not> regexTest webSocketPattern (payloadText signal))
     \<and> generateChecksum (sig_payload signal) = Inr (sig_checksum signal)"

text \<open>
  The lazy restart of the rate window in \<open>validateSignalSecurity\<close>: the tracker as the
  counting of an envelope arriving at \<open>now\<close> finds it, restarted with the counter at zero
  and a new end one minute after \<open>now\<close> when the previous window has elapsed.
\<close>

definition windowStart :: "RateTracker \<Rightarrow> int \<Rightarrow> RateTracker" where
  "windowStart tracker now =
     (if now > resetTime tracker then tracker\<lparr> count := 0, resetTime := now + 60000 \<rparr>
      else tracker)"

text \<open>A cancel request for job \<open>J1\<close> as the executor side would send it at time \<open>t\<close>.\<close>

definition cancelSignal :: "int \<Rightarrow> SignalPacket" where
  "cancelSignal t =
     \<lparr> sig_type = Command, sig_direction = Inbound, sig_timestamp = t,
       sig_payload = JObj [(''action'', JStr ''cancel''), (''jobId'', JStr ''J1'')],
       sig_checksum = ''-323e271b'', sig_source = Some ''dvd557s'', sig_deviceId = None \<rparr>"

text \<open>
  An old envelope from a source that is not on the allow-list, with a digest that does
  not fit its payload.
\<close>

definition staleForeignSignal :: SignalPacket where
  "staleForeignSignal =
     \<lparr> sig_type = Command, sig_direction = Inbound, sig_timestamp = 0,
       sig_payload = JObj [(''action'', JStr ''cancel''), (''jobId'', JStr ''J1'')],
       sig_checksum = ''0'', sig_source = Some ''intruder'', sig_deviceId = None \<rparr>"

text \<open>A fresh envelope from an allowed source whose \<^verbatim>\<open>payload\<close> property is missing.\<close>

definition noPayloadSignal :: SignalPacket where
  "noPayloadSignal =
     \<lparr> sig_type = Status, sig_direction = Inbound, sig_timestamp = 900,
       sig_payload = JUndefined, sig_checksum = ''0'', sig_source = Some ''dvd557s'',
       sig_deviceId = None \<rparr>"

text \<open>
  A pending job descriptor as \<^verbatim>\<open>executeBurnToDisc\<close> uploads it:
  \<^verbatim>\<open>{ jobId, status: 'pending', created, fileCount, priority }\<close>.
\<close>

definition jobDescriptor :: "string \<Rightarrow> string \<Rightarrow> int \<Rightarrow> string \<Rightarrow> jsval" where
  "jobDescriptor jobId created fileCount priority =
     JObj [(''jobId'', JStr jobId), (''status'', JStr ''pending''), (''created'', JStr created),
           (''fileCount'', JNum fileCount), (''priority'', JStr priority)]"


text \<open>Two worlds agree on everything \<^verbatim>\<open>receiveSignals\<close> reads.\<close>

definition sameChannel :: "World \<Rightarrow> World \<Rightarrow> bool" where
  "sameChannel w v \<longleftrightarrow>
     clock w = clock v \<and> inboundReads w = inboundReads v \<and> helm w = helm v
     \<and> signalRateTracker w = signalRateTracker v \<and> device w = device v
     \<and> responseBuffer w = responseBuffer v"

text \<open>The status an outbound signal announces: \<^verbatim>\<open>payload.params.status\<close>.\<close>

definition announcedStatus :: "SignalPacket \<Rightarrow> jsval" where
  "announcedStatus s = getProp (getProp (sig_payload s) ''params'') ''status''"

text \<open>
  What the requests of the executor leave behind when the store accepts them: the signal
  \<^verbatim>\<open>sendCommand\<close> creates, and the world after a \<^verbatim>\<open>sendCommand\<close>, an
  \<^verbatim>\<open>updateJobStatus\<close> and a \<^verbatim>\<open>syncToOneDriveAfterBurn\<close>.
\<close>

definition sentSignal :: "string \<Rightarrow> jsval \<Rightarrow> int \<Rightarrow> SignalPacket" where
  "sentSignal command params now =
     \<lparr> sig_type = Command, sig_direction = Outbound, sig_timestamp = now,
       sig_payload = commandPayload command params,
       sig_checksum = (case generateChecksum (commandPayload command params) of
                         Inr digest \<Rightarrow> digest | Inl e \<Rightarrow> []),
       sig_source = None, sig_deviceId = None \<rparr>"

definition afterSend :: "string \<Rightarrow> jsval \<Rightarrow> World \<Rightarrow> World" where
  "afterSend command params w =
     w\<lparr> signalQueue := signalQueue w @ [sentSignal command params (clock w)],
        store := AList.update ''signals/outbound.json''
                   (outboundFile (signalQueue w @ [sentSignal command params (clock w)])
                      (clock w))
                   (store w) \<rparr>"

definition afterStatus :: "jsval \<Rightarrow> JobStatus \<Rightarrow> int \<Rightarrow> string option \<Rightarrow> World \<Rightarrow> World" where
  "afterStatus jobId status progress err w =
     afterSend ''status'' (statusUpdate jobId status progress err (toISOString w (clock w)))
       (w\<lparr> store := AList.update (''status/'' @ jsToString jobId @ ''.json'')
                      (Json (jsonValue
                         (statusUpdate jobId status progress err (toISOString w (clock w)))))
                      (store w) \<rparr>)"

definition afterSync :: "jsval \<Rightarrow> JobStatus \<Rightarrow> string option \<Rightarrow> World \<Rightarrow> World" where
  "afterSync jobId finalStatus err w =
     w\<lparr> store :=
          AList.update
            (''archive/'' @ takeWhile (\<lambda>c. c \<noteq> CHR ''T'') (toISOString w (clock w))
               @ ''/'' @ jsToString jobId @ ''.json'')
            (Json (jsonValue (completionRecord jobId finalStatus err (toISOString w (clock w)))))
            (AList.update (''completed/'' @ jsToString jobId @ ''.json'')
               (Json (jsonValue
                  (completionRecord jobId finalStatus err (toISOString w (clock w)))))
               (store w)) \<rparr>"

text \<open>
  A world for the scenarios: job \<open>J1\<close> with priority high is pending, the gateway is in
  its initial configuration and nothing has happened yet.
\<close>

definition scenarioWorld :: World where
  "scenarioWorld =
     \<lparr> clock = 100000, toISOString = (\<lambda>t. ''2024-01-01T00:00:00.000Z''),
       store = [(''pending/J1.json'',
                 Json (jobDescriptor ''J1'' ''2024-01-01T00:00:00.000Z'' 2 ''high''))],
       outages = [], inboundReads = [],
       helm = HELM_initial, signalRateTracker = signalRateTracker_initial 0,
       device = \<lparr> connected = False, ready = False, lastSignal = 0, dv_deviceId = None,
                  capabilities = [] \<rparr>,
       signalQueue = [], responseBuffer = [],
       executor = \<lparr> running = True, currentJob = None, completedJobs = [],
                    failedJobs = [] \<rparr> \<rparr>"


text \<open>
  The retry scenario: in each of five polling rounds the listing and the read of the
  descriptor succeed, the first upload of the job fails, and the four uploads of the
  failure handling succeed.
\<close>

definition retryScene :: World where
  "retryScene =
     scenarioWorld\<lparr> outages :=
       concat (replicate 5 [None, None, Some ''upload failed'', None, None, None, None]) \<rparr>"

text \<open>What is looked at after the rounds: the failures recorded and the pending descriptor.\<close>

definition retryEvidence :: "World \<Rightarrow> jsval list \<times> blob option \<times> string option list" where
  "retryEvidence w = (failedJobs (executor w), map_of (store w) ''pending/J1.json'', outages w)"

section \<open>The manifest state machine: properties\<close>

lemma isValidTransition_table:
  "isValidTransition a b \<longleftrightarrow> (a, b) \<in> set transition_table"
  by (cases a; cases b; simp add: isValidTransition_def transition_table_def)

text \<open>
  Claim C2. \<^verbatim>\<open>transitionState\<close> succeeds exactly on the pairs of the transition table of
  section 4.1. On success it appends one transition record and one matching audit-log
  entry, sets the current state, the status mirror and the last-modified timestamp to
  the new values, and changes nothing else. On any other pair it throws the
  invalid-transition error and the manifest is as it was.
\<close>

theorem transitionState_table:
  "(fst (transitionState m s a r now) = Inr ()
      \<longleftrightarrow> (currentState (m_lifecycle m), s) \<in> set transition_table)
   \<and> ((currentState (m_lifecycle m), s) \<in> set transition_table \<longrightarrow>
        states (m_lifecycle (snd (transitionState m s a r now))) =
          states (m_lifecycle m) @
            [\<lparr> st_from = Some (currentState (m_lifecycle m)), st_to = s, st_timestamp = now,
               st_actor = Some (case a of None \<Rightarrow> ''system'' | Some x \<Rightarrow> x), st_reason = r \<rparr>]
      \<and> auditLog (m_admin (snd (transitionState m s a r now))) =
          auditLog (m_admin m) @
            [\<lparr> ae_timestamp = now, ae_action = ''STATE_TRANSITION'',
               ae_actor = (case a of None \<Rightarrow> ''system'' | Some x \<Rightarrow> x),
               ae_details = Some (JObj [(''from'', JStr (statusName (currentState (m_lifecycle m)))),
                                        (''to'', JStr (statusName s)),
                                        (''reason'', undefinedOr r)]) \<rparr>]
      \<and> snd (transitionState m s a r now) =
          m\<lparr> m_lifecycle := (m_lifecycle m)\<lparr>
                 states := states (m_lifecycle (snd (transitionState m s a r now))),
                 currentState := s \<rparr>,
             m_job := (m_job m)\<lparr> job_status := s, job_updated := now \<rparr>,
             m_admin := (m_admin m)\<lparr>
                 auditLog := auditLog (m_admin (snd (transitionState m s a r now))) \<rparr> \<rparr>)
   \<and> ((currentState (m_lifecycle m), s) \<notin> set transition_table \<longrightarrow>
        transitionState m s a r now
          = (Inl (InvalidTransition (currentState (m_lifecycle m)) s), m))"
  by (simp add: transitionState_def Let_def isValidTransition_table)

lemma sample_current:
  "currentState (m_lifecycle (createManifest sampleOptions ''t0'' ''/home'')) = Created"
  by (simp add: createManifest_def split_def Let_def)

lemma sample_states:
  "states (m_lifecycle (createManifest sampleOptions ''t0'' ''/home'')) =
     [\<lparr> st_from = None, st_to = Created, st_timestamp = ''t0'', st_actor = Some ''system'',
        st_reason = Some ''Job initialized'' \<rparr>]"
  by (simp add: createManifest_def split_def Let_def)

theorem transitionState_table_witness:
  "(Created, Pending) \<in> set transition_table
   \<and> fst (transitionState (createManifest sampleOptions ''t0'' ''/home'')
             Pending None None ''t1'') = Inr ()
   \<and> map st_to (states (m_lifecycle (snd (transitionState
             (createManifest sampleOptions ''t0'' ''/home'') Pending None None ''t1''))))
       = [Created, Pending]
   \<and> (Created, Complete) \<notin> set transition_table
   \<and> transitionState (createManifest sampleOptions ''t0'' ''/home'') Complete None None ''t1''
       = (Inl (Error ''Invalid state transition: created -> complete''),
          createManifest sampleOptions ''t0'' ''/home'')"
proof -
  have valid: "(Created, Pending) \<in> set transition_table"
    by (simp add: transition_table_def)
  have invalid: "(Created, Complete) \<notin> set transition_table"
    by (simp add: transition_table_def)
  from transitionState_table
         [of "createManifest sampleOptions ''t0'' ''/home''" Pending None None "''t1''"]
       transitionState_table
         [of "createManifest sampleOptions ''t0'' ''/home''" Complete None None "''t1''"]
       valid invalid sample_states
  show ?thesis
    by (simp add: sample_current InvalidTransition_def)
qed

lemma historyOk_create: "historyOk (createManifest options now cwd)"
  by (simp add: historyOk_def createManifest_def split_def Let_def)

lemma historyOk_step: "historyOk m \<Longrightarrow> historyOk (snd (transitionState m s a r now))"
  by (simp add: historyOk_def transitionState_def Let_def)

lemma states_step:
  "prefix (states (m_lifecycle m)) (states (m_lifecycle (snd (transitionState m s a r now))))"
  by (simp add: transitionState_def Let_def)

lemma evolves_historyOk: "evolves m m' \<Longrightarrow> historyOk m \<Longrightarrow> historyOk m'"
  by (induction rule: evolves.induct) (simp_all add: historyOk_step)

lemma evolves_prefix:
  "evolves m m' \<Longrightarrow> prefix (states (m_lifecycle m)) (states (m_lifecycle m'))"
proof (induction rule: evolves.induct)
  case (evolves_refl m)
  show ?case by simp
next
  case (evolves_step m m' newState actorArg r now)
  from evolves_step.IH states_step show ?case
    by (rule prefix_order.trans)
qed

text \<open>
  Claim C9. Every manifest that comes from \<^verbatim>\<open>createManifest\<close> by \<^verbatim>\<open>transitionState\<close>
  calls has a last transition record whose \<open>to\<close> field is the current state, and
  whatever further calls are made, the history it has now stays as a prefix of the later
  history: records are only appended, never edited or removed.
\<close>

theorem manifest_history_invariant:
  assumes "evolves (createManifest options now cwd) m" and "evolves m m'"
  shows "states (m_lifecycle m) \<noteq> []
     \<and> st_to (last (states (m_lifecycle m))) = currentState (m_lifecycle m)
     \<and> prefix (states (m_lifecycle m)) (states (m_lifecycle m'))"
  using evolves_historyOk [OF assms(1) historyOk_create] evolves_prefix [OF assms(2)]
  by (simp add: historyOk_def)

theorem manifest_history_invariant_witness:
  "evolves (createManifest sampleOptions ''t0'' ''/home'')
     (snd (transitionState (createManifest sampleOptions ''t0'' ''/home'')
             Pending None None ''t1''))
   \<and> evolves
       (snd (transitionState (createManifest sampleOptions ''t0'' ''/home'')
               Pending None None ''t1''))
       (snd (transitionState
               (snd (transitionState (createManifest sampleOptions ''t0'' ''/home'')
                       Pending None None ''t1''))
               Queued (Some ''executor'') None ''t2''))
   \<and> st_to (last (states (m_lifecycle
         (snd (transitionState (createManifest sampleOptions ''t0'' ''/home'')
                 Pending None None ''t1'')))))
       = currentState (m_lifecycle
           (snd (transitionState (createManifest sampleOptions ''t0'' ''/home'')
                   Pending None None ''t1'')))
   \<and> prefix
       (states (m_lifecycle
          (snd (transitionState (createManifest sampleOptions ''t0'' ''/home'')
                  Pending None None ''t1''))))
       (states (m_lifecycle
          (snd (transitionState
                  (snd (transitionState (createManifest sampleOptions ''t0'' ''/home'')
                          Pending None None ''t1''))
                  Queued (Some ''executor'') None ''t2''))))"
proof -
  have first: "evolves (createManifest sampleOptions ''t0'' ''/home'')
     (snd (transitionState (createManifest sampleOptions ''t0'' ''/home'')
             Pending None None ''t1''))"
    by (rule evolves_step [OF evolves_refl])
  have second: "evolves
       (snd (transitionState (createManifest sampleOptions ''t0'' ''/home'')
               Pending None None ''t1''))
       (snd (transitionState
               (snd (transitionState (createManifest sampleOptions ''t0'' ''/home'')
                       Pending None None ''t1''))
               Queued (Some ''executor'') None ''t2''))"
    by (rule evolves_step [OF evolves_refl])
  from manifest_history_invariant [OF first second] first second
  show ?thesis
    by simp
qed

section \<open>The security gateway: properties\<close>

lemma cancelSignal_valid: "otherwiseValid HELM_initial 1000 (cancelSignal 900)"
  by code_simp

text \<open>
  Claim C10. With the gateway switched off (\<^verbatim>\<open>deactivateHelm\<close>, or any configuration
  whose \<open>active\<close> flag is false) \<^verbatim>\<open>validateSignalSecurity\<close> allows every envelope, whatever
  its source, age, payload and digest, and leaves the rate tracker as it was.
\<close>

theorem inactive_gateway_allows_everything:
  "validateSignalSecurity (deactivateHelm h) tracker now signal
     = (Inr \<lparr> allowed = True, reason = None \<rparr>, tracker)
   \<and> (\<not> active h \<longrightarrow>
        validateSignalSecurity h tracker now signal
          = (Inr \<lparr> allowed = True, reason = None \<rparr>, tracker))"
  by (simp add: validateSignalSecurity_def deactivateHelm_def allow_def)

theorem inactive_gateway_allows_everything_witness:
  "\<not> active (deactivateHelm HELM_initial)
   \<and> 100000 - sig_timestamp staleForeignSignal > maxSignalAge (deactivateHelm HELM_initial)
   \<and> \<not> includesSource (declaredSource staleForeignSignal)
   \<and> generateChecksum (sig_payload staleForeignSignal) \<noteq> Inr (sig_checksum staleForeignSignal)
   \<and> validateSignalSecurity (deactivateHelm HELM_initial) (signalRateTracker_initial 0) 100000
        staleForeignSignal
       = (Inr \<lparr> allowed = True, reason = None \<rparr>, signalRateTracker_initial 0)"
proof -
  have off: "\<not> active (deactivateHelm HELM_initial)"
    by (simp add: deactivateHelm_def)
  have old: "100000 - sig_timestamp staleForeignSignal > maxSignalAge (deactivateHelm HELM_initial)"
    by (simp add: deactivateHelm_def HELM_initial_def staleForeignSignal_def)
  have foreign: "\<not> includesSource (declaredSource staleForeignSignal)"
    by code_simp
  have tampered: "generateChecksum (sig_payload staleForeignSignal) \<noteq> Inr (sig_checksum staleForeignSignal)"
    by code_simp
  from inactive_gateway_allows_everything
         [of HELM_initial "signalRateTracker_initial 0" 100000 staleForeignSignal]
       off old foreign tampered
  show ?thesis
    by simp
qed

text \<open>
  Claim C8 as stated fails on the code: under the initial configuration an envelope that is
  older than the maximum age and names a source outside the allow-list is rejected by
  the source check, which runs first, with the source reason and not the age one.
\<close>

theorem stale_foreign_counterexample:
  "100000 - sig_timestamp staleForeignSignal > maxSignalAge HELM_initial
   \<and> validateSignalSecurity HELM_initial (signalRateTracker_initial 0) 100000 staleForeignSignal
       = (Inr \<lparr> allowed = False, reason = Some ''BLOCKED: Source not DVD557s'' \<rparr>,
          signalRateTracker_initial 0)"
  by code_simp

text \<open>
  Claim C8, amended. An active gateway rejects every envelope older than the maximum
  signal age and leaves the rate tracker untouched. The reason is the age one whenever
  the source check passes or is switched off, whatever the rate limit, the payload and
  the digest are; it is the source one when the source check fails.
\<close>

theorem stale_signal_rejected:
  assumes "active h" and "now - sig_timestamp signal > maxSignalAge h"
  shows "(\<exists>why. validateSignalSecurity h tracker now signal = (Inr (block why), tracker))
     \<and> (\<not> onlyDVD557s h \<or> includesSource (declaredSource signal)
          \<or> includesSource (declaredDeviceId signal) \<longrightarrow>
         validateSignalSecurity h tracker now signal
           = (Inr (block ''BLOCKED: Signal too old (replay attack prevention)''), tracker))
     \<and> (onlyDVD557s h \<and> \<not> includesSource (declaredSource signal)
          \<and> \<not> includesSource (declaredDeviceId signal) \<longrightarrow>
         validateSignalSecurity h tracker now signal
           = (Inr (block ''BLOCKED: Source not DVD557s''), tracker))"
  using assms by (auto simp add: validateSignalSecurity_def)

theorem stale_signal_rejected_witness:
  "active HELM_initial
   \<and> 100000 - sig_timestamp (cancelSignal 900) > maxSignalAge HELM_initial
   \<and> includesSource (declaredSource (cancelSignal 900))
   \<and> otherwiseValid HELM_initial 1000 (cancelSignal 900)
   \<and> validateSignalSecurity HELM_initial (signalRateTracker_initial 0) 100000 (cancelSignal 900)
       = (Inr (block ''BLOCKED: Signal too old (replay attack prevention)''),
          signalRateTracker_initial 0)"
proof -
  have on: "active HELM_initial"
    by (simp add: HELM_initial_def)
  have old: "100000 - sig_timestamp (cancelSignal 900) > maxSignalAge HELM_initial"
    by (simp add: HELM_initial_def cancelSignal_def)
  have known: "includesSource (declaredSource (cancelSignal 900))"
    by code_simp
  from stale_signal_rejected [OF on old, of "signalRateTracker_initial 0"] on old known
       cancelSignal_valid
  show ?thesis
    by simp
qed

text \<open>
  Claim C6 at a failing input. A fresh envelope from an allowed source that has no
  \<^verbatim>\<open>payload\<close> property passes the source, age, rate and pattern checks (the pattern
  checks read \<^verbatim>\<open>signal.payload || {}\<close>); the digest check then calls
  \<^verbatim>\<open>generateChecksum(undefined)\<close>, which throws a TypeError out of the gateway after the
  rate counter has been advanced.
\<close>

theorem gateway_throws_without_payload:
  "validateSignalSecurity HELM_initial (signalRateTracker_initial 0) 1000 noPayloadSignal
     = (Inl (TypeError ''Cannot read properties of undefined (reading 'length')''),
        \<lparr> count = 1, resetTime = 60000 \<rparr>)"
  by code_simp

text \<open>Only a missing payload makes the gateway throw.\<close>

lemma stringify_undefined: "stringify p = None \<longleftrightarrow> p = JUndefined"
  by (cases p) simp_all

lemma gateway_returns_with_payload:
  assumes "sig_payload signal \<noteq> JUndefined"
  shows "\<exists>r. fst (validateSignalSecurity h tracker now signal) = Inr r"
proof -
  from assms obtain rendered where "stringify (sig_payload signal) = Some rendered"
    using stringify_undefined [of "sig_payload signal"] by auto
  then show ?thesis
    by (auto simp add: validateSignalSecurity_def generateChecksum_def Let_def
          split: option.splits)
qed

lemma validate_otherwiseValid:
  assumes "active h" and "otherwiseValid h now signal"
  shows "validateSignalSecurity h tracker now signal =
     (let t1 = (if now > resetTime tracker
                then tracker\<lparr> count := 0, resetTime := now + 60000 \<rparr> else tracker);
          t2 = t1\<lparr> count := count t1 + 1 \<rparr>
      in if count t2 > rateLimitPerMinute h
         then (Inr (block ''BLOCKED: Rate limit exceeded''), t2)
         else (Inr allow, t2))"
proof -
  from assms(2) have src: "\<not> (onlyDVD557s h \<and> \<not> includesSource (declaredSource signal)
        \<and> \<not> includesSource (declaredDeviceId signal))"
    and fresh: "\<not> now - sig_timestamp signal > maxSignalAge h"
    and clean: "(if blockScriptInjection h
                 then find (\<lambda>pattern. regexTest pattern (payloadText signal)) (blockedPatterns h)
                 else None) = None"
    and nows: "\<not> (blockWebSockets h \<and> regexTest webSocketPattern (payloadText signal))"
    and sum: "generateChecksum (sig_payload signal) = Inr (sig_checksum signal)"
    by (auto simp add: otherwiseValid_def find_None_iff list_ex_iff)
  show ?thesis
    unfolding validateSignalSecurity_def
    using assms(1) src fresh nows
    by (auto simp add: clean sum Let_def)
qed

lemma submitAll_window:
  assumes "active h"
  shows "\<forall>(now, signal) \<in> set batch. now \<le> resetTime tracker \<and> otherwiseValid h now signal
    \<Longrightarrow> submitAll h tracker batch
          = (Inr (map (\<lambda>i. if count tracker + int i < rateLimitPerMinute h then allow
                            else block ''BLOCKED: Rate limit exceeded'') [0..<length batch]),
             tracker\<lparr> count := count tracker + int (length batch) \<rparr>)"
proof (induction batch arbitrary: tracker)
  case Nil
  show ?case by simp
next
  case (Cons entry batch)
  obtain now signal where entry: "entry = (now, signal)"
    by (cases entry)
  from Cons.prems entry have inWindow: "now \<le> resetTime tracker"
    and valid: "otherwiseValid h now signal"
    by simp_all
  have one: "validateSignalSecurity h tracker now signal
       = (Inr (if count tracker < rateLimitPerMinute h then allow
               else block ''BLOCKED: Rate limit exceeded''),
          tracker\<lparr> count := count tracker + 1 \<rparr>)"
    using inWindow by (simp add: validate_otherwiseValid [OF assms valid] Let_def)
  have rest: "submitAll h (tracker\<lparr> count := count tracker + 1 \<rparr>) batch
       = (Inr (map (\<lambda>i. if count tracker + 1 + int i < rateLimitPerMinute h then allow
                         else block ''BLOCKED: Rate limit exceeded'') [0..<length batch]),
          tracker\<lparr> count := count tracker + 1 + int (length batch) \<rparr>)"
    using Cons.IH [of "tracker\<lparr> count := count tracker + 1 \<rparr>"] Cons.prems
    by simp
  have shift: "map (\<lambda>i. if count tracker + int i < rateLimitPerMinute h then allow
                         else block ''BLOCKED: Rate limit exceeded'') [0..<Suc (length batch)]
       = (if count tracker < rateLimitPerMinute h then allow
          else block ''BLOCKED: Rate limit exceeded'')
         # map (\<lambda>i. if count tracker + 1 + int i < rateLimitPerMinute h then allow
                      else block ''BLOCKED: Rate limit exceeded'') [0..<length batch]"
    by (simp only: upt_conv_Cons [of 0 "Suc (length batch)"] map_Suc_upt [symmetric])
       (simp add: comp_def add.assoc add.commute)
  have run: "submitAll h tracker (entry # batch)
       = (Inr ((if count tracker < rateLimitPerMinute h then allow
                else block ''BLOCKED: Rate limit exceeded'')
               # map (\<lambda>i. if count tracker + 1 + int i < rateLimitPerMinute h then allow
                            else block ''BLOCKED: Rate limit exceeded'') [0..<length batch]),
          tracker\<lparr> count := count tracker + 1 + int (length batch) \<rparr>)"
    by (simp add: entry one rest)
  show ?case
    unfolding run length_Cons shift by simp
qed

lemma submitAll_append:
  "submitAll h tracker (xs @ ys) =
     (case submitAll h tracker xs of
        (Inl e, tracker') \<Rightarrow> (Inl e, tracker')
      | (Inr rs, tracker') \<Rightarrow>
          (case submitAll h tracker' ys of
             (Inl e, tracker'') \<Rightarrow> (Inl e, tracker'')
           | (Inr rs', tracker'') \<Rightarrow> (Inr (rs @ rs'), tracker'')))"
  by (induction xs arbitrary: tracker) (auto split: prod.splits sum.splits)

lemma validate_windowStart:
  assumes "active h" and "otherwiseValid h now signal"
  shows "validateSignalSecurity h tracker now signal
       = validateSignalSecurity h (windowStart tracker now) now signal"
  by (simp add: validate_otherwiseValid [OF assms] Let_def windowStart_def)

lemma first_in_window: "now \<le> resetTime (windowStart tracker now)"
  by (simp add: windowStart_def)

lemma within_limit_prefix:
  "map (\<lambda>i. if int i < int n then a else b) [0..<Suc n] = replicate n a @ [b]"
proof -
  have "map (\<lambda>i. if int i < int n then a else b) [0..<n] = map (\<lambda>i. a) [0..<n]"
    by (rule map_cong) simp_all
  then show ?thesis
    by (simp add: map_replicate_const)
qed

lemma within_limit_all:
  "n \<le> k \<Longrightarrow> map (\<lambda>i. if i < (k::nat) then a else b) [0..<n] = replicate n a"
  by (induction n) (simp_all add: replicate_append_same)

lemma within_limit_last:
  "map (\<lambda>i. if i < (k::nat) then a else b) [0..<Suc k] = replicate k a @ [b]"
  by (simp add: within_limit_all)

lemma submitAll_restart:
  assumes "active h"
    and "\<forall>(now, signal) \<in> set ((now0, signal0) # rest). otherwiseValid h now signal"
    and "\<forall>(now, signal) \<in> set rest. now \<le> resetTime (windowStart tracker now0)"
  shows "submitAll h tracker ((now0, signal0) # rest)
       = (Inr (map (\<lambda>i. if count (windowStart tracker now0) + int i < rateLimitPerMinute h
                         then allow else block ''BLOCKED: Rate limit exceeded'')
                 [0..<Suc (length rest)]),
          (windowStart tracker now0)
            \<lparr> count := count (windowStart tracker now0) + int (Suc (length rest)) \<rparr>)"
proof -
  from assms(2) have valid0: "otherwiseValid h now0 signal0"
    by simp
  have first: "validateSignalSecurity h tracker now0 signal0
       = validateSignalSecurity h (windowStart tracker now0) now0 signal0"
    by (rule validate_windowStart [OF assms(1) valid0])
  have same: "submitAll h tracker ((now0, signal0) # rest)
       = submitAll h (windowStart tracker now0) ((now0, signal0) # rest)"
    by (simp only: submitAll.simps first)
  have inside: "\<forall>(now, signal) \<in> set ((now0, signal0) # rest).
       now \<le> resetTime (windowStart tracker now0) \<and> otherwiseValid h now signal"
    using assms(2,3) first_in_window [of now0 tracker] by auto
  from submitAll_window [OF assms(1) inside] same show ?thesis
    by simp
qed

text \<open>
  Claim C7 as stated fails on the code: the gateway does not count over a rolling minute
  but in fixed one-minute windows, restarted by the first envelope that is counted after
  \<open>resetTime\<close>. Under the initial configuration (limit 60) and the initial tracker, whose
  window ends at 60000, 61 envelopes that pass every other check and arrive within one
  millisecond, 30 at 60000 and 31 at 60001, are all allowed: the first 30 are counted in
  the window that ends at 60000, the other 31 in the window that the 31st opens. None is
  rejected, although all 61 lie in one minute.
\<close>

theorem burst_across_reset_all_allowed:
  "rateLimitPerMinute HELM_initial + 1 = 61
   \<and> otherwiseValid HELM_initial 60000 (cancelSignal 59900)
   \<and> otherwiseValid HELM_initial 60001 (cancelSignal 59900)
   \<and> submitAll HELM_initial (signalRateTracker_initial 0)
        (replicate 30 (60000, cancelSignal 59900) @ replicate 31 (60001, cancelSignal 59900))
       = (Inr (replicate 61 allow), \<lparr> count = 31, resetTime = 120001 \<rparr>)"
proof -
  have on: "active HELM_initial" and limit: "rateLimitPerMinute HELM_initial = 60"
    by (simp_all add: HELM_initial_def)
  have before: "otherwiseValid HELM_initial 60000 (cancelSignal 59900)"
    by code_simp
  have after: "otherwiseValid HELM_initial 60001 (cancelSignal 59900)"
    by code_simp
  have firstOk: "\<forall>(now, signal) \<in> set (replicate 30 (60000::int, cancelSignal 59900)).
       now \<le> resetTime (signalRateTracker_initial 0) \<and> otherwiseValid HELM_initial now signal"
    using before by (simp add: signalRateTracker_initial_def)
  have firstRun: "submitAll HELM_initial (signalRateTracker_initial 0)
        (replicate 30 (60000, cancelSignal 59900))
       = (Inr (replicate 30 allow), \<lparr> count = 30, resetTime = 60000 \<rparr>)"
    using submitAll_window [OF on firstOk] within_limit_all [of 30 60 allow]
    by (simp add: limit signalRateTracker_initial_def)
  have secondOk: "\<forall>(now, signal) \<in> set ((60001::int, cancelSignal 59900)
         # replicate 30 (60001, cancelSignal 59900)). otherwiseValid HELM_initial now signal"
    using after by simp
  have secondIn: "\<forall>(now, signal) \<in> set (replicate 30 (60001::int, cancelSignal 59900)).
       now \<le> resetTime (windowStart \<lparr> count = 30, resetTime = 60000 \<rparr> 60001)"
    by (simp add: windowStart_def)
  have secondRun: "submitAll HELM_initial \<lparr> count = 30, resetTime = 60000 \<rparr>
        (replicate 31 (60001, cancelSignal 59900))
       = (Inr (replicate 31 allow), \<lparr> count = 31, resetTime = 120001 \<rparr>)"
  proof -
    have unfolded: "replicate 31 (60001::int, cancelSignal 59900)
         = (60001, cancelSignal 59900) # replicate 30 (60001, cancelSignal 59900)"
      by (simp add: numeral_eq_Suc)
    show ?thesis
      unfolding unfolded
      using submitAll_restart [OF on secondOk secondIn] within_limit_all [of 31 60 allow]
      by (simp add: limit windowStart_def)
  qed
  have whole: "submitAll HELM_initial (signalRateTracker_initial 0)
        (replicate 30 (60000, cancelSignal 59900) @ replicate 31 (60001, cancelSignal 59900))
       = (Inr (replicate 61 allow), \<lparr> count = 31, resetTime = 120001 \<rparr>)"
    by (simp add: submitAll_append firstRun secondRun replicate_add [symmetric])
  from limit before after whole show ?thesis
    by simp
qed

text \<open>
  Claim C7, amended. The active gateway counts in fixed one-minute windows. The window of
  a batch is the tracker as its first envelope finds it (\<open>windowStart\<close>): the tracker
  itself while its window is open, and a new window with the counter at zero, ending one
  minute after the arrival, once \<open>resetTime\<close> has passed. Of otherwise valid envelopes
  that all arrive within that window, the one at position \<open>i\<close> (from zero) is allowed
  exactly when the window's counter plus \<open>i\<close> is below the limit, and every other one is
  rejected with the rate-limit reason; all of them are counted. So from a counter at zero,
  limit plus one such envelopes are answered with limit times allowed and then one
  rate-limit rejection, the last. An otherwise valid envelope that arrives after
  \<open>resetTime\<close> restarts the window, is counted as its first and, with a limit of at least
  one, allowed, whatever the counter was.
\<close>

theorem rate_limit_fixed_window:
  assumes "active h"
    and "\<forall>(now, signal) \<in> set ((now0, signal0) # rest). otherwiseValid h now signal"
    and "\<forall>(now, signal) \<in> set rest. now \<le> resetTime (windowStart tracker now0)"
  shows "submitAll h tracker ((now0, signal0) # rest)
       = (Inr (map (\<lambda>i. if count (windowStart tracker now0) + int i < rateLimitPerMinute h
                         then allow else block ''BLOCKED: Rate limit exceeded'')
                 [0..<Suc (length rest)]),
          (windowStart tracker now0)
            \<lparr> count := count (windowStart tracker now0) + int (Suc (length rest)) \<rparr>)
     \<and> (count (windowStart tracker now0) = 0 \<and> int (length rest) = rateLimitPerMinute h \<longrightarrow>
          fst (submitAll h tracker ((now0, signal0) # rest))
            = Inr (replicate (length rest) allow @ [block ''BLOCKED: Rate limit exceeded'']))
     \<and> (resetTime tracker < now0 \<longrightarrow>
          validateSignalSecurity h tracker now0 signal0
            = (Inr (if 1 \<le> rateLimitPerMinute h then allow
                    else block ''BLOCKED: Rate limit exceeded''),
               tracker\<lparr> count := 0 + 1, resetTime := now0 + 60000 \<rparr>))"
proof -
  note run = submitAll_restart [OF assms]
  have exact: "fst (submitAll h tracker ((now0, signal0) # rest))
            = Inr (replicate (length rest) allow @ [block ''BLOCKED: Rate limit exceeded''])"
    if "count (windowStart tracker now0) = 0" and "int (length rest) = rateLimitPerMinute h"
    using that by (simp only: run fst_conv that(2) [symmetric] add_0 within_limit_prefix)
  from assms(2) have valid0: "otherwiseValid h now0 signal0"
    by simp
  have restart: "validateSignalSecurity h tracker now0 signal0
            = (Inr (if 1 \<le> rateLimitPerMinute h then allow
                    else block ''BLOCKED: Rate limit exceeded''),
               tracker\<lparr> count := 0 + 1, resetTime := now0 + 60000 \<rparr>)"
    if "resetTime tracker < now0"
    using that by (simp add: validate_otherwiseValid [OF assms(1) valid0] Let_def)
  from run exact restart show ?thesis
    by blast
qed

theorem rate_limit_fixed_window_witness:
  "active HELM_initial \<and> rateLimitPerMinute HELM_initial = 60
   \<and> otherwiseValid HELM_initial 1000 (cancelSignal 900)
   \<and> count (windowStart (signalRateTracker_initial 0) 1000) = 0
   \<and> submitAll HELM_initial (signalRateTracker_initial 0) (replicate 61 (1000, cancelSignal 900))
       = (Inr (replicate 60 allow @ [block ''BLOCKED: Rate limit exceeded'']),
          \<lparr> count = 61, resetTime = 60000 \<rparr>)
   \<and> otherwiseValid HELM_initial 70000 (cancelSignal 69000)
   \<and> resetTime \<lparr> count = 61, resetTime = 60000 \<rparr> < 70000
   \<and> validateSignalSecurity HELM_initial \<lparr> count = 61, resetTime = 60000 \<rparr> 70000
        (cancelSignal 69000)
       = (Inr allow, \<lparr> count = 1, resetTime = 130000 \<rparr>)"
proof -
  have on: "active HELM_initial" and limit: "rateLimitPerMinute HELM_initial = 60"
    by (simp_all add: HELM_initial_def)
  have valid: "otherwiseValid HELM_initial 1000 (cancelSignal 900)"
    by code_simp
  have later: "otherwiseValid HELM_initial 70000 (cancelSignal 69000)"
    by code_simp
  have start: "windowStart (signalRateTracker_initial 0) 1000 = \<lparr> count = 0, resetTime = 60000 \<rparr>"
    by (simp add: windowStart_def signalRateTracker_initial_def)
  have unfolded: "replicate 61 (1000::int, cancelSignal 900)
       = (1000, cancelSignal 900) # replicate 60 (1000, cancelSignal 900)"
    by (simp add: numeral_eq_Suc)
  have all: "\<forall>(now, signal) \<in> set ((1000::int, cancelSignal 900)
         # replicate 60 (1000, cancelSignal 900)). otherwiseValid HELM_initial now signal"
    using valid by simp
  have inside: "\<forall>(now, signal) \<in> set (replicate 60 (1000::int, cancelSignal 900)).
       now \<le> resetTime (windowStart (signalRateTracker_initial 0) 1000)"
    by (simp add: start)
  have one: "\<forall>(now, signal) \<in> set ((70000::int, cancelSignal 69000) # []).
       otherwiseValid HELM_initial now signal"
    using later by simp
  have none: "\<forall>(now, signal) \<in> set ([] :: (int \<times> SignalPacket) list).
       now \<le> resetTime (windowStart \<lparr> count = 61, resetTime = 60000 \<rparr> 70000)"
    by simp
  have burst: "submitAll HELM_initial (signalRateTracker_initial 0)
        (replicate 61 (1000, cancelSignal 900))
       = (Inr (replicate 60 allow @ [block ''BLOCKED: Rate limit exceeded'']),
          \<lparr> count = 61, resetTime = 60000 \<rparr>)"
    using rate_limit_fixed_window [OF on all inside]
      within_limit_last [of 60 allow "block ''BLOCKED: Rate limit exceeded''"]
    by (simp add: unfolded [symmetric] start limit prod_eq_iff)
  have again: "validateSignalSecurity HELM_initial \<lparr> count = 61, resetTime = 60000 \<rparr> 70000
        (cancelSignal 69000)
       = (Inr allow, \<lparr> count = 1, resetTime = 130000 \<rparr>)"
    using rate_limit_fixed_window [OF on one none]
    by (simp add: limit)
  from on limit valid later start burst again show ?thesis
    by simp
qed

section \<open>The signal codec: properties\<close>

text \<open>
  Claim C3 as stated fails on the code: the digest is taken over \<^verbatim>\<open>JSON.stringify\<close> of the
  payload, which writes the properties in their enumeration order, and nothing sorts the
  keys first. Two objects with the same properties in a different order get different
  digests.
\<close>

theorem key_order_changes_digest:
  "set [(''a'', JNum 1), (''b'', JNum 2)] = set [(''b'', JNum 2), (''a'', JNum 1)]
   \<and> generateChecksum (JObj [(''a'', JNum 1), (''b'', JNum 2)]) = Inr ''4b9bdd50''
   \<and> generateChecksum (JObj [(''b'', JNum 2), (''a'', JNum 1)]) = Inr ''4853a550''"
proof -
  have "set [(''a'', JNum 1), (''b'', JNum 2)] = set [(''b'', JNum 2), (''a'', JNum 1)]"
    by auto
  moreover have "generateChecksum (JObj [(''a'', JNum 1), (''b'', JNum 2)]) = Inr ''4b9bdd50''"
    by code_simp
  moreover have "generateChecksum (JObj [(''b'', JNum 2), (''a'', JNum 1)]) = Inr ''4853a550''"
    by code_simp
  ultimately show ?thesis
    by simp
qed

lemma validate_not_checksum:
  assumes "generateChecksum (sig_payload signal) = Inr (sig_checksum signal)"
  shows "fst (validateSignalSecurity h tracker t signal)
           \<noteq> Inr (block ''BLOCKED: Invalid checksum (tampering detected)'')"
    and "\<forall>e. fst (validateSignalSecurity h tracker t signal) \<noteq> Inl e"
  using assms
  by (auto simp add: validateSignalSecurity_def Let_def block_def allow_def
           split: option.splits if_splits)

text \<open>
  Claim C3, amended. For every payload that \<^verbatim>\<open>JSON.stringify\<close> renders as a text,
  \<^verbatim>\<open>createSignal\<close> stamps the envelope with the digest of that text, and the gateway,
  whatever its configuration, rate tracker and clock, neither rejects the envelope for
  its digest nor throws. The digest depends on the payload through that text only:
  payloads with the same text have the same digest.
\<close>

theorem createSignal_passes_integrity:
  assumes "stringify p = Some text"
  shows "createSignal ty p now
       = Inr \<lparr> sig_type = ty, sig_direction = Outbound, sig_timestamp = now, sig_payload = p,
               sig_checksum = numToString 16 (sint (rollingHash text)),
               sig_source = None, sig_deviceId = None \<rparr>
     \<and> (\<forall>h tracker t.
           fst (validateSignalSecurity h tracker t
                  \<lparr> sig_type = ty, sig_direction = Outbound, sig_timestamp = now,
                    sig_payload = p, sig_checksum = numToString 16 (sint (rollingHash text)),
                    sig_source = None, sig_deviceId = None \<rparr>)
             \<noteq> Inr (block ''BLOCKED: Invalid checksum (tampering detected)'')
         \<and> (\<forall>e. fst (validateSignalSecurity h tracker t
                  \<lparr> sig_type = ty, sig_direction = Outbound, sig_timestamp = now,
                    sig_payload = p, sig_checksum = numToString 16 (sint (rollingHash text)),
                    sig_source = None, sig_deviceId = None \<rparr>) \<noteq> Inl e))
     \<and> (\<forall>q. stringify q = Some text \<longrightarrow> generateChecksum q = generateChecksum p)"
proof -
  have digest: "generateChecksum p = Inr (numToString 16 (sint (rollingHash text)))"
    by (simp add: generateChecksum_def assms)
  have made: "createSignal ty p now
       = Inr \<lparr> sig_type = ty, sig_direction = Outbound, sig_timestamp = now, sig_payload = p,
               sig_checksum = numToString 16 (sint (rollingHash text)),
               sig_source = None, sig_deviceId = None \<rparr>"
    by (simp add: createSignal_def digest)
  have same: "generateChecksum q = generateChecksum p" if "stringify q = Some text" for q
    using that by (simp add: generateChecksum_def assms)
  have fits: "generateChecksum (sig_payload \<lparr> sig_type = ty, sig_direction = Outbound,
        sig_timestamp = now, sig_payload = p,
        sig_checksum = numToString 16 (sint (rollingHash text)),
        sig_source = None, sig_deviceId = None \<rparr>)
      = Inr (sig_checksum \<lparr> sig_type = ty, sig_direction = Outbound,
        sig_timestamp = now, sig_payload = p,
        sig_checksum = numToString 16 (sint (rollingHash text)),
        sig_source = None, sig_deviceId = None \<rparr>)"
    by (simp add: digest)
  from made same validate_not_checksum [OF fits] show ?thesis
    by blast
qed

theorem createSignal_passes_integrity_witness:
  "stringify (JObj [(''a'', JNum 1), (''b'', JNum 2)])
     = Some [CHR ''{'', dquote, CHR ''a'', dquote, CHR '':'', CHR ''1'', CHR '','',
             dquote, CHR ''b'', dquote, CHR '':'', CHR ''2'', CHR ''}'']
   \<and> createSignal Data (JObj [(''a'', JNum 1), (''b'', JNum 2)]) 5000
       = Inr \<lparr> sig_type = Data, sig_direction = Outbound, sig_timestamp = 5000,
               sig_payload = JObj [(''a'', JNum 1), (''b'', JNum 2)],
               sig_checksum = ''4b9bdd50'', sig_source = None, sig_deviceId = None \<rparr>
   \<and> validateSignalSecurity (HELM_initial\<lparr> onlyDVD557s := False \<rparr>)
        (signalRateTracker_initial 0) 6000
        \<lparr> sig_type = Data, sig_direction = Outbound, sig_timestamp = 5000,
          sig_payload = JObj [(''a'', JNum 1), (''b'', JNum 2)],
          sig_checksum = ''4b9bdd50'', sig_source = None, sig_deviceId = None \<rparr>
       = (Inr allow, \<lparr> count = 1, resetTime = 60000 \<rparr>)"
proof -
  have rendered: "stringify (JObj [(''a'', JNum 1), (''b'', JNum 2)])
     = Some [CHR ''{'', dquote, CHR ''a'', dquote, CHR '':'', CHR ''1'', CHR '','',
             dquote, CHR ''b'', dquote, CHR '':'', CHR ''2'', CHR ''}'']"
    by code_simp
  have digest: "numToString 16 (sint (rollingHash
       [CHR ''{'', dquote, CHR ''a'', dquote, CHR '':'', CHR ''1'', CHR '','',
        dquote, CHR ''b'', dquote, CHR '':'', CHR ''2'', CHR ''}''])) = ''4b9bdd50''"
    by code_simp
  have passes: "validateSignalSecurity (HELM_initial\<lparr> onlyDVD557s := False \<rparr>)
        (signalRateTracker_initial 0) 6000
        \<lparr> sig_type = Data, sig_direction = Outbound, sig_timestamp = 5000,
          sig_payload = JObj [(''a'', JNum 1), (''b'', JNum 2)],
          sig_checksum = ''4b9bdd50'', sig_source = None, sig_deviceId = None \<rparr>
       = (Inr allow, \<lparr> count = 1, resetTime = 60000 \<rparr>)"
    by code_simp
  from createSignal_passes_integrity [OF rendered, of Data 5000] rendered passes show ?thesis
    by (simp add: digest)
qed

section \<open>The scheduler: properties\<close>

text \<open>What the comparator does achieve: a stable arrangement by rank.\<close>

lemma sortJobs_sorted_stable:
  assumes "\<not> list_ex nullish jobs"
  shows "\<exists>sorted_jobs. sortJobs jobs = Inr sorted_jobs
     \<and> sorted (map jobRank sorted_jobs)
     \<and> filter (\<lambda>j. jobRank j = k) sorted_jobs = filter (\<lambda>j. jobRank j = k) jobs
     \<and> set sorted_jobs = set jobs"
  using assms by (simp add: sortJobs_def sort_key_stable)

lemma jobRank_urgent_is_normal:
  "jobRank (jobDescriptor i c n ''urgent'') = jobRank (jobDescriptor i' c' n' ''normal'')"
  by (simp add: jobRank_def jobDescriptor_def priorityOrder_def orDefault_def)

text \<open>
  Claim C1 at a failing input. The comparator ranks a job by
  \<^verbatim>\<open>priorityOrder[a.priority] || 2\<close>; the rank 0 of \<^verbatim>\<open>urgent\<close> is falsy, so an urgent job
  is ranked 2 like a normal one. For jobs submitted as low, urgent, normal, high the
  sorted order is high, urgent, normal, low, and the job selected first is the high one.
\<close>

theorem urgent_job_not_first:
  "sortJobs [jobDescriptor ''job-a'' ''t1'' 1 ''low'', jobDescriptor ''job-b'' ''t2'' 1 ''urgent'',
             jobDescriptor ''job-c'' ''t3'' 1 ''normal'', jobDescriptor ''job-d'' ''t4'' 1 ''high'']
     = Inr [jobDescriptor ''job-d'' ''t4'' 1 ''high'', jobDescriptor ''job-b'' ''t2'' 1 ''urgent'',
            jobDescriptor ''job-c'' ''t3'' 1 ''normal'', jobDescriptor ''job-a'' ''t1'' 1 ''low'']
   \<and> map jobRank [jobDescriptor ''job-a'' ''t1'' 1 ''low'', jobDescriptor ''job-b'' ''t2'' 1 ''urgent'',
             jobDescriptor ''job-c'' ''t3'' 1 ''normal'', jobDescriptor ''job-d'' ''t4'' 1 ''high'']
     = [3, 2, 2, 1]"
  by code_simp

section \<open>The executor: cancellation and retries\<close>






lemma afterSend_fields [simp]:
  "outages (afterSend c p w) = outages w"
  "clock (afterSend c p w) = clock w"
  "toISOString (afterSend c p w) = toISOString w"
  "inboundReads (afterSend c p w) = inboundReads w"
  "helm (afterSend c p w) = helm w"
  "signalRateTracker (afterSend c p w) = signalRateTracker w"
  "device (afterSend c p w) = device w"
  "executor (afterSend c p w) = executor w"
  "responseBuffer (afterSend c p w) = responseBuffer w"
  "signalQueue (afterSend c p w) = signalQueue w @ [sentSignal c p (clock w)]"
  by (simp_all add: afterSend_def)

lemma afterStatus_fields [simp]:
  "outages (afterStatus jid st pr err w) = outages w"
  "clock (afterStatus jid st pr err w) = clock w"
  "toISOString (afterStatus jid st pr err w) = toISOString w"
  "inboundReads (afterStatus jid st pr err w) = inboundReads w"
  "helm (afterStatus jid st pr err w) = helm w"
  "signalRateTracker (afterStatus jid st pr err w) = signalRateTracker w"
  "device (afterStatus jid st pr err w) = device w"
  "executor (afterStatus jid st pr err w) = executor w"
  "responseBuffer (afterStatus jid st pr err w) = responseBuffer w"
  "signalQueue (afterStatus jid st pr err w) = signalQueue w @
     [sentSignal ''status'' (statusUpdate jid st pr err (toISOString w (clock w))) (clock w)]"
  by (simp_all add: afterStatus_def)

lemma afterSync_fields [simp]:
  "outages (afterSync jid st err w) = outages w"
  "clock (afterSync jid st err w) = clock w"
  "toISOString (afterSync jid st err w) = toISOString w"
  "inboundReads (afterSync jid st err w) = inboundReads w"
  "helm (afterSync jid st err w) = helm w"
  "signalRateTracker (afterSync jid st err w) = signalRateTracker w"
  "device (afterSync jid st err w) = device w"
  "executor (afterSync jid st err w) = executor w"
  "responseBuffer (afterSync jid st err w) = responseBuffer w"
  "signalQueue (afterSync jid st err w) = signalQueue w"
  by (simp_all add: afterSync_def)




lemma announced_status [simp]:
  "announcedStatus (sentSignal ''status'' (statusUpdate jid st pr err stamp) now)
     = JStr (statusName st)"
  by (simp add: announcedStatus_def sentSignal_def commandPayload_def statusUpdate_def)

lemma announced_burn [simp]:
  "announcedStatus (sentSignal ''burn''
      (JObj [(''jobId'', a), (''files'', b), (''priority'', c)]) now) = JUndefined"
  by (simp add: announcedStatus_def sentSignal_def commandPayload_def)

lemma receiveSignals_keeps [simp]:
  "outages (snd (receiveSignals w)) = outages w"
  "store (snd (receiveSignals w)) = store w"
  "signalQueue (snd (receiveSignals w)) = signalQueue w"
  "executor (snd (receiveSignals w)) = executor w"
  "toISOString (snd (receiveSignals w)) = toISOString w"
  "clock (snd (receiveSignals w)) = clock w"
  by (simp_all add: receiveSignals_def Let_def
        split: list.splits option.splits prod.splits sum.splits)



lemma sameChannel_afterStatus [simp]:
  "sameChannel (afterStatus jid st pr err w) v = sameChannel w v"
  by (simp add: sameChannel_def)

lemma sameChannel_afterSend [simp]:
  "sameChannel (afterSend c p w) v = sameChannel w v"
  by (simp add: sameChannel_def)









text \<open>
  Claim C5 at a failing input. \<^verbatim>\<open>processJob\<close> handles a failure by writing the status
  \<open>failed\<close> and a completion record and by noting the job in \<^verbatim>\<open>state.failedJobs\<close>; it
  neither counts the attempts nor removes the descriptor from \<^verbatim>\<open>pending/\<close>, and
  \<^verbatim>\<open>pollAndProcess\<close> does not look at \<^verbatim>\<open>state.failedJobs\<close>. A job whose processing
  fails in five polling rounds in a row is processed five times, which is four retries
  with a bound of three, and is still pending afterwards.
\<close>

theorem failed_job_retried_without_bound:
  "retryEvidence (executorTicks 5 retryScene)
     = ([JStr ''J1'', JStr ''J1'', JStr ''J1'', JStr ''J1'', JStr ''J1''],
        Some (Json (jobDescriptor ''J1'' ''2024-01-01T00:00:00.000Z'' 2 ''high'')),
        [])"
  by code_simp

end
